theory Spec2Isabelle
  imports Main
begin

section \<open>Values of the expression engine\<close>

text \<open>
  The JavaScript source is dynamically typed: the parser of condition strings stores
  operator strings, nested arrays and expression objects in the same arrays, and a
  \<open>UnaryExpression\<close> keeps in \<open>_expression\<close> whatever \<open>assignTester\<close> hands it. The
  values the expression code can hold are therefore one datatype. Exceptions are values
  of \<open>jserror\<close>; a function that can throw returns \<open>jserror + 'a\<close>.
\<close>

datatype jserror = TypeError | Error

text \<open>
  \<open>Tester\<close> (source lines 947-981): the expected value (a string, or \<open>None\<close> for
  \<open>undefined\<close>), the cached result and the dirty flag. The wrapped test is code of a test
  module; what the tester needs of it is the boolean that
  \<open>_test.assert(_expected,_element)\<close> returns at present, kept in \<open>t_assert\<close>. A change
  of the environment changes that field.
\<close>

record tester =
  t_expected :: "string option"
  t_result :: bool
  t_changed :: bool
  t_assert :: bool

text \<open>The constructor: nothing is cached yet, and the first call of \<open>succeeds\<close> asserts.\<close>

definition Tester :: "bool \<Rightarrow> string option \<Rightarrow> tester" where
  "Tester assert expected =
     \<lparr>t_expected = expected, t_result = False, t_changed = True, t_assert = assert\<rparr>"

datatype val =
    Undefined
  | Null
  | Str string
  | Arr "val list"
  | Cfg string string
  | Unary val val bool
  | Binary val string val
  | TesterV tester
  | Obj

text \<open>
  \<open>Cfg path value\<close> is the object \<open>{'path':path,'value':value}\<close>;
  \<open>Unary e c n\<close> is a \<open>UnaryExpression\<close> with fields \<open>_expression\<close>, \<open>_config\<close>, \<open>_negate\<close>;
  \<open>Binary a opr b\<close> is a \<open>BinaryExpression\<close>; \<open>Obj\<close> is any other object, one with no
  \<open>succeeds\<close> property.
\<close>

text \<open>The constructor \<open>UnaryExpression(expression,negate)\<close>, lines 470-478.\<close>

fun is_expression :: "val \<Rightarrow> bool" where
  "is_expression (Unary _ _ _) = True"
| "is_expression (Binary _ _ _) = True"
| "is_expression _ = False"

definition UnaryExpression :: "val \<Rightarrow> bool \<Rightarrow> val" where
  "UnaryExpression expression negate =
     (if is_expression expression then Unary expression Null negate
      else Unary Null expression negate)"

text \<open>\<open>assignTester\<close>, lines 486-490: overwrites \<open>_expression\<close>.\<close>

fun assignTester :: "val \<Rightarrow> val \<Rightarrow> val" where
  "assignTester (Unary e c n) t = Unary t c n"
| "assignTester v t = v"

text \<open>\<open>Tester.prototype.succeeds\<close>, lines 973-981.\<close>

definition tester_succeeds :: "tester \<Rightarrow> bool \<times> tester" where
  "tester_succeeds t =
     (if t_changed t
      then (let r = t_assert t
            in (r, t\<lparr>t_changed := False, t_result := r\<rparr>))
      else (t_result t, t))"

text \<open>
  \<open>succeeds\<close> of the two expression classes (lines 503-511 and 540-550), as the method call
  \<open>x.succeeds()\<close> on any value: reading a property of \<open>undefined\<close> or \<open>null\<close> throws a
  TypeError, and so does calling a missing method. The result carries the value with the
  testers' caches updated. \<open>&&\<close> and \<open>||\<close> evaluate their right operand only when the left one
  does not decide.
\<close>

fun has_succeeds :: "val \<Rightarrow> bool" where
  "has_succeeds (Unary _ _ _) = True"
| "has_succeeds (Binary _ _ _) = True"
| "has_succeeds (TesterV _) = True"
| "has_succeeds _ = False"

fun is_nullish :: "val \<Rightarrow> bool" where
  "is_nullish Undefined = True"
| "is_nullish Null = True"
| "is_nullish _ = False"

fun succeeds :: "val \<Rightarrow> jserror + (bool \<times> val)" where
  "succeeds (TesterV t) = (case tester_succeeds t of (r, t') \<Rightarrow> Inr (r, TesterV t'))"
| "succeeds (Unary e c n) =
     (if is_nullish e then Inl TypeError
      else if \<not> has_succeeds e then Inr (False, Unary e c n)
      else (case succeeds e of
              Inl err \<Rightarrow> Inl err
            | Inr (r, e') \<Rightarrow> Inr (r \<noteq> n, Unary e' c n)))"
| "succeeds (Binary a opr b) =
     (case succeeds a of
        Inl err \<Rightarrow> Inl err
      | Inr (ra, a') \<Rightarrow>
          if (if opr = ''and'' then \<not> ra else ra) then Inr (ra, Binary a' opr b)
          else (case succeeds b of
                  Inl err \<Rightarrow> Inl err
                | Inr (rb, b') \<Rightarrow> Inr (rb, Binary a' opr b')))"
| "succeeds _ = Inl TypeError"

text \<open>
  \<open>toString\<close> (lines 513-515 and 556-558) as the method call \<open>x.toString()\<close>. An array joins
  its elements with commas, \<open>undefined\<close> and \<open>null\<close> elements giving the empty string; a
  plain object gives \<open>[object Object]\<close>; reading \<open>.path\<close> off a value that has no such
  property gives \<open>undefined\<close>, which the concatenation prints.
\<close>

fun is_truthy :: "val \<Rightarrow> bool" where
  "is_truthy Undefined = False"
| "is_truthy Null = False"
| "is_truthy (Str s) = (s \<noteq> [])"
| "is_truthy _ = True"

fun join_commas :: "(jserror + string) list \<Rightarrow> jserror + string" where
  "join_commas [] = Inr []"
| "join_commas [x] = x"
| "join_commas (x # y # ys) =
     (case x of
        Inl err \<Rightarrow> Inl err
      | Inr s \<Rightarrow> (case join_commas (y # ys) of
                    Inl err \<Rightarrow> Inl err
                  | Inr r \<Rightarrow> Inr (s @ '','' @ r)))"

fun config_text :: "val \<Rightarrow> jserror + string" where
  "config_text Undefined = Inl TypeError"
| "config_text Null = Inl TypeError"
| "config_text (Cfg p v) = Inr (p @ '':{'' @ v @ ''}'')"
| "config_text _ = Inr ''undefined:{undefined}''"

fun toString :: "val \<Rightarrow> jserror + string" where
  "toString Undefined = Inl TypeError"
| "toString Null = Inl TypeError"
| "toString (Str s) = Inr s"
| "toString (Arr xs) =
     join_commas (map (\<lambda>x. if is_nullish x then Inr [] else toString x) xs)"
| "toString (Cfg p v) = Inr ''[object Object]''"
| "toString (TesterV t) = Inr ''[object Object]''"
| "toString Obj = Inr ''[object Object]''"
| "toString (Unary e c n) =
     (case (if is_truthy e then toString e else config_text c) of
        Inl err \<Rightarrow> Inl err
      | Inr s \<Rightarrow> Inr ((if n then ''not '' else '''') @ s))"
| "toString (Binary a opr b) =
     (case toString a of
        Inl err \<Rightarrow> Inl err
      | Inr sa \<Rightarrow> (case toString b of
                     Inl err \<Rightarrow> Inl err
                   | Inr sb \<Rightarrow> Inr (''('' @ sa @ '' '' @ opr @ '' '' @ sb @ '')'')))"

section \<open>ExpressionFormatter.fromString\<close>

text \<open>
  The parser (lines 594-786) walks the string once. \<open>target\<close> is the array being filled and
  \<open>parents\<close> a stack of arrays; a \<open>(\<close> pushes a fresh array onto \<open>target\<close>, pushes \<open>target\<close>
  onto \<open>parents\<close> and makes the fresh array the target, so the fresh array is the last
  element of its parent and the parent is not written while the child is the target. The
  model keeps the arrays as a zipper: \<open>ps_target\<close> is the content of the target array and
  \<open>ps_anc\<close> lists its enclosing arrays, innermost first, each without its last element (the
  slot of the child); the flag of a frame tells whether the array is still on \<open>parents\<close>,
  because the source can pop a parent and leave the target where it is.
  \<open>ps_dead\<close> records that \<open>target\<close> was set to the \<open>undefined\<close> that popping an empty
  stack returns.
\<close>

record pstate =
  ps_path :: string
  ps_value :: string
  ps_isValue :: bool
  ps_target :: "val list"
  ps_anc :: "(val list \<times> bool) list"
  ps_dead :: bool

definition init_pstate :: pstate where
  "init_pstate = \<lparr>ps_path = [], ps_value = [], ps_isValue = False,
                  ps_target = [], ps_anc = [], ps_dead = False\<rparr>"

text \<open>Rebuilding an array from the target upwards through the given frames.\<close>

fun close_frames :: "val list \<Rightarrow> val list list \<Rightarrow> val list" where
  "close_frames t [] = t"
| "close_frames t (p # ps) = close_frames (p @ [Arr t]) ps"

text \<open>
  \<open>parents.pop()\<close>: the depth of the innermost frame still on the stack, if any, and the
  frames with that one taken off the stack.
\<close>

fun pop_parent :: "(val list \<times> bool) list \<Rightarrow> nat option \<times> (val list \<times> bool) list" where
  "pop_parent [] = (None, [])"
| "pop_parent ((p, True) # rest) = (Some 0, (p, False) # rest)"
| "pop_parent ((p, False) # rest) =
     (case pop_parent rest of
        (None, rest') \<Rightarrow> (None, (p, False) # rest')
      | (Some d, rest') \<Rightarrow> (Some (Suc d), (p, False) # rest'))"

text \<open>Array reads out of range give \<open>undefined\<close>.\<close>

definition nth_or_undefined :: "val list \<Rightarrow> nat \<Rightarrow> val" where
  "nth_or_undefined xs i = (if i < length xs then xs ! i else Undefined)"

fun is_not :: "val \<Rightarrow> bool" where
  "is_not (Str s) = (s = ''not'')"
| "is_not _ = False"

text \<open>\<open>xs.splice(start,count,x)\<close> for \<open>0 \<le> start \<le> xs.length\<close>.\<close>

definition splice :: "val list \<Rightarrow> nat \<Rightarrow> nat \<Rightarrow> val \<Rightarrow> val list" where
  "splice xs start cnt x = take start xs @ [x] @ drop (start + cnt) xs"

text \<open>
  The reduction of one group (the inner \<open>for\<close> loop, lines 735-758). After every splice
  the source rewinds \<open>j\<close> to the start; on input such as \<open>['and', x, y]\<close> the loop rebuilds
  the last element for ever, so the model counts the rewinds with fuel and \<open>None\<close> means
  the fuel ran out. \<open>target[j-1]\<close> at \<open>j = 0\<close> reads \<open>undefined\<close>, and \<open>splice(-1,3,x)\<close>
  starts at the last element.
\<close>

function reduce :: "nat \<Rightarrow> nat \<Rightarrow> val list \<Rightarrow> val list option" where
  "reduce fuel j target =
     (if length target \<le> j then Some target
      else (case target ! j of
              Str s \<Rightarrow>
                if s = ''not'' then
                  (case fuel of
                     0 \<Rightarrow> None
                   | Suc f \<Rightarrow>
                       reduce f 0
                         (splice target j 2
                            (UnaryExpression (nth_or_undefined target (Suc j)) True)))
                else if \<not> is_not (nth_or_undefined target (Suc j)) then
                  (case fuel of
                     0 \<Rightarrow> None
                   | Suc f \<Rightarrow>
                       reduce f 0
                         (splice target (if j = 0 then length target - 1 else j - 1) 3
                            (Binary (if j = 0 then Undefined else target ! (j - 1)) s
                                    (nth_or_undefined target (Suc j)))))
                else reduce fuel (Suc j) target
            | _ \<Rightarrow> reduce fuel (Suc j) target))"
  by pat_completeness auto
termination
  by (relation "measures [\<lambda>(fuel, j, target). fuel, \<lambda>(fuel, j, target). length target - j]")
     auto

text \<open>
  The clean-up of a group (the \<open>do ... while\<close> loop, lines 717-773), run on \<open>)\<close> and at the
  last index; \<open>last\<close> is the test \<open>i === l-1\<close>. Every round pops one parent, and the loop
  goes on only while a parent was popped; each round uses one unit of fuel.
\<close>

fun cleanup :: "nat \<Rightarrow> bool \<Rightarrow> pstate \<Rightarrow> (jserror + pstate) option" where
  "cleanup 0 atEnd st = None"
| "cleanup (Suc fuel) atEnd st =
     (case pop_parent (ps_anc st) of
        (parent, anc') \<Rightarrow>
          if ps_dead st then Some (Inl TypeError)
          else if length (ps_target st) = 0 then
            (case parent of
               None \<Rightarrow> Some (Inr (st\<lparr>ps_anc := anc', ps_dead := True\<rparr>))
             | Some d \<Rightarrow>
                 (let st' = st\<lparr>ps_target := close_frames [] (map fst (take (Suc d) anc')),
                               ps_anc := drop (Suc d) anc'\<rparr>
                  in if atEnd then cleanup fuel atEnd st' else Some (Inr st')))
          else
            (case reduce fuel 0 (ps_target st) of
               None \<Rightarrow> None
             | Some t \<Rightarrow>
                 (case parent of
                    None \<Rightarrow> Some (Inr (st\<lparr>ps_target := t, ps_anc := anc'\<rparr>))
                  | Some d \<Rightarrow>
                      (let st' = (if length t = 1
                                  then st\<lparr>ps_target := fst (anc' ! d) @ [t ! 0],
                                          ps_anc := drop (Suc d) anc'\<rparr>
                                  else st\<lparr>ps_target := t, ps_anc := anc'\<rparr>)
                       in if atEnd then cleanup fuel atEnd st' else Some (Inr st')))))"

text \<open>
  The operator test, \<open>expression.substr(i,5).match(/and |or |not /g)\<close>: the leftmost match
  in the window of five characters, without its trailing space.
\<close>

fun find_operator :: "string \<Rightarrow> string option" where
  "find_operator [] = None"
| "find_operator (c # cs) =
     (if take 4 (c # cs) = ''and '' then Some ''and''
      else if take 3 (c # cs) = ''or '' then Some ''or''
      else if take 4 (c # cs) = ''not '' then Some ''not''
      else find_operator cs)"

text \<open>
  The path of a leaf: the characters before index \<open>i-1\<close>, back to the previous space or
  opening parenthesis (lines 636-644).
\<close>

definition scan_path :: "string \<Rightarrow> nat \<Rightarrow> string" where
  "scan_path expression i =
     rev (takeWhile (\<lambda>n. n \<noteq> CHR '' '' \<and> n \<noteq> CHR ''('') (rev (take (i - 1) expression)))"

text \<open>The branch for \<open>}\<close> (lines 650-672).\<close>

definition close_leaf :: "pstate \<Rightarrow> pstate" where
  "close_leaf st =
     (let target = ps_target st;
          negate = (0 < length target \<and> is_not (last target));
          e = UnaryExpression (Cfg (ps_path st) (ps_value st)) negate
      in st\<lparr>ps_target := (if negate then butlast target @ [e] else target @ [e]),
             ps_path := [], ps_value := [], ps_isValue := False\<rparr>)"

text \<open>
  The end of a round (lines 715-778): the clean-up runs on \<open>)\<close> and at the last index,
  tested after the operator branch has moved \<open>i\<close>.
\<close>

definition finish_round ::
  "nat \<Rightarrow> string \<Rightarrow> nat \<Rightarrow> nat \<Rightarrow> pstate \<Rightarrow> (jserror + (nat \<times> pstate)) option" where
  "finish_round fuel expression i skip st =
     (if expression ! i = CHR '')'' \<or> i + skip = length expression - 1
      then (case cleanup fuel (i + skip = length expression - 1) st of
              None \<Rightarrow> None
            | Some (Inl err) \<Rightarrow> Some (Inl err)
            | Some (Inr st') \<Rightarrow> Some (Inr (skip, st')))
      else Some (Inr (skip, st)))"

text \<open>
  One round of the main loop at index \<open>i\<close> (lines 624-779); the result is the state and the
  number of characters the operator branch skips (\<open>i += ol\<close>).
\<close>

definition step ::
  "nat \<Rightarrow> string \<Rightarrow> nat \<Rightarrow> pstate \<Rightarrow> (jserror + (nat \<times> pstate)) option" where
  "step fuel expression i st =
     (let c = expression ! i in
      if c = CHR ''{'' then
        Some (Inr (0, st\<lparr>ps_isValue := True, ps_path := scan_path expression i\<rparr>))
      else if c = CHR ''}'' \<and> ps_dead st then Some (Inl TypeError)
      else
        (let st1 = (if c = CHR ''}'' then close_leaf st else st) in
         if ps_isValue st1 then Some (Inr (0, st1\<lparr>ps_value := ps_value st1 @ [c]\<rparr>))
         else if c = CHR ''('' \<and> ps_dead st1 then Some (Inl TypeError)
         else
           (let st2 = (if c = CHR ''(''
                       then st1\<lparr>ps_anc := (ps_target st1, True) # ps_anc st1, ps_target := []\<rparr>
                       else st1)
            in if c = CHR '' '' \<or> i = 0 \<or> c = CHR ''('' then
                 (case find_operator (take 5 (drop i expression)) of
                    None \<Rightarrow> Some (Inr (0, st2))
                  | Some opr \<Rightarrow>
                      if ps_dead st2 then Some (Inl TypeError)
                      else finish_round fuel expression i (length opr)
                             (st2\<lparr>ps_target := ps_target st2 @ [Str opr]\<rparr>))
               else finish_round fuel expression i 0 st2)))"

text \<open>The main loop, from index \<open>i\<close> on.\<close>

function parse_loop :: "nat \<Rightarrow> string \<Rightarrow> nat \<Rightarrow> pstate \<Rightarrow> (jserror + pstate) option" where
  "parse_loop fuel expression i st =
     (if length expression \<le> i then Some (Inr st)
      else (case step fuel expression i st of
              None \<Rightarrow> None
            | Some (Inl err) \<Rightarrow> Some (Inl err)
            | Some (Inr (skip, st')) \<Rightarrow> parse_loop fuel expression (Suc (i + skip)) st'))"
  by pat_completeness auto
termination
  by (relation "measure (\<lambda>(fuel, expression, i, st). length expression - i)") auto

text \<open>
  \<open>fromString\<close>: the tree is the outermost array, and the result is its only element when
  it has exactly one (line 784).
\<close>

definition fromString :: "nat \<Rightarrow> string \<Rightarrow> (jserror + val) option" where
  "fromString fuel expression =
     (case parse_loop fuel expression 0 init_pstate of
        None \<Rightarrow> None
      | Some (Inl err) \<Rightarrow> Some (Inl err)
      | Some (Inr st) \<Rightarrow>
          (let tree = close_frames (ps_target st) (map fst (ps_anc st))
           in Some (Inr (if length tree = 1 then tree ! 0 else Arr tree))))"

section \<open>ConditionsManager\<close>

text \<open>
  \<open>getExpressionsCount\<close> (lines 583-585) is \<open>expression.match(/(\:\{)/g).length\<close>: the
  number of occurrences of the two characters \<open>:{\<close>. \<open>match\<close> returns \<open>null\<close> when there is
  none, and reading \<open>.length\<close> off \<open>null\<close> throws.
\<close>

fun count_matches :: "string \<Rightarrow> nat" where
  "count_matches (a # b # cs) =
     (if a = CHR '':'' \<and> b = CHR ''{'' then Suc (count_matches cs)
      else count_matches (b # cs))"
| "count_matches _ = 0"

definition getExpressionsCount :: "string \<Rightarrow> jserror + nat" where
  "getExpressionsCount expression =
     (if count_matches expression = 0 then Inl TypeError
      else Inr (count_matches expression))"

text \<open>
  \<open>getConfig\<close> (lines 492-496 and 564-568) returns nested arrays of records
  \<open>{'expression':this,'config':this._config}\<close>. The reference to the leaf is its position in
  the tree: the steps from the root, through \<open>_expression\<close>, \<open>_a\<close> or \<open>_b\<close>.
\<close>

datatype dir = InExpression | InA | InB

datatype cfgtree = Entry "dir list" val | Group "cfgtree list"

fun getConfig :: "dir list \<Rightarrow> val \<Rightarrow> jserror + cfgtree list" where
  "getConfig pos (Unary e c n) =
     (if is_truthy c then Inr [Entry pos c]
      else if is_nullish e then Inl TypeError
      else getConfig (pos @ [InExpression]) e)"
| "getConfig pos (Binary a opr b) =
     (case getConfig (pos @ [InA]) a of
        Inl err \<Rightarrow> Inl err
      | Inr ca \<Rightarrow> (case getConfig (pos @ [InB]) b of
                     Inl err \<Rightarrow> Inl err
                   | Inr cb \<Rightarrow> Inr [Group ca, Group cb]))"
| "getConfig pos _ = Inl TypeError"

text \<open>
  \<open>_loadExpressionTests\<close> (lines 1176-1187) walks the nested arrays in order and asks
  \<open>TestFactory.getTest\<close> for the test of every entry; \<open>getTest\<close> hands the request to the
  asynchronous module loader, so what the constructor leaves behind is the list of
  requests, each with the leaf it is for.
\<close>

fun loadExpressionTests :: "cfgtree list \<Rightarrow> (dir list \<times> val) list" where
  "loadExpressionTests [] = []"
| "loadExpressionTests (Entry pos c # rest) = (pos, c) # loadExpressionTests rest"
| "loadExpressionTests (Group g # rest) = loadExpressionTests g @ loadExpressionTests rest"

text \<open>
  The object (lines 1108-1136). Without a string as conditions the constructor returns
  before it sets \<open>_count\<close> and \<open>_expression\<close>, which therefore read \<open>undefined\<close>.
\<close>

record cm =
  cm_suitable :: bool
  cm_count :: "int option"
  cm_expression :: val
  cm_requests :: "(dir list \<times> val) list"

fun is_string :: "val \<Rightarrow> bool" where
  "is_string (Str s) = True"
| "is_string _ = False"

fun the_string :: "val \<Rightarrow> string" where
  "the_string (Str s) = s"
| "the_string _ = []"

definition ConditionsManager :: "nat \<Rightarrow> val \<Rightarrow> (jserror + cm) option" where
  "ConditionsManager fuel conditions =
     (if \<not> is_string conditions
      then Some (Inr \<lparr>cm_suitable = True, cm_count = None, cm_expression = Undefined,
                      cm_requests = []\<rparr>)
      else (case getExpressionsCount (the_string conditions) of
              Inl err \<Rightarrow> Some (Inl err)
            | Inr n \<Rightarrow>
                (case fromString fuel (the_string conditions) of
                   None \<Rightarrow> None
                 | Some (Inl err) \<Rightarrow> Some (Inl err)
                 | Some (Inr e) \<Rightarrow>
                     (case getConfig [] e of
                        Inl err \<Rightarrow> Some (Inl err)
                      | Inr cfg \<Rightarrow>
                          Some (Inr \<lparr>cm_suitable = False, cm_count = Some (int n),
                                     cm_expression = e,
                                     cm_requests = loadExpressionTests cfg\<rparr>)))))"

definition getSuitability :: "cm \<Rightarrow> bool" where
  "getSuitability m = cm_suitable m"

text \<open>
  \<open>test\<close> (lines 1157-1168). \<open>Observer.publish(this,'change')\<close> is an effect on the
  subscribers; the function returns the events it publishes, in order.
\<close>

datatype cm_event = CmReady bool | CmChange

definition test :: "cm \<Rightarrow> jserror + (cm \<times> cm_event list)" where
  "test m =
     (case succeeds (cm_expression m) of
        Inl err \<Rightarrow> Inl err
      | Inr (suitable, e) \<Rightarrow>
          if suitable \<noteq> cm_suitable m
          then Inr (m\<lparr>cm_expression := e, cm_suitable := suitable\<rparr>, [CmChange])
          else Inr (m\<lparr>cm_expression := e\<rparr>, []))"

text \<open>\<open>_onTestResultsChanged\<close> (lines 1241-1243) calls \<open>test\<close>.\<close>

definition onTestResultsChanged :: "cm \<Rightarrow> jserror + (cm \<times> cm_event list)" where
  "onTestResultsChanged m = test m"

text \<open>\<open>_onReady\<close> (lines 1226-1234): test, then publish \<open>ready\<close> with the verdict.\<close>

definition onReady :: "cm \<Rightarrow> jserror + (cm \<times> cm_event list)" where
  "onReady m =
     (case test m of
        Inl err \<Rightarrow> Inl err
      | Inr (m', evs) \<Rightarrow> Inr (m', evs @ [CmReady (cm_suitable m')]))"

text \<open>
  The callback of \<open>_loadTesterToExpression\<close> (lines 1200-1216), run when the loader
  answers request \<open>k\<close> with a test whose assertion yields \<open>assert\<close>: a new tester goes into the
  leaf, the count goes down, and at zero the manager is ready. \<open>config.value\<close> is
  \<open>undefined\<close> when the configuration is not the object the parser builds.
\<close>

fun config_value :: "val \<Rightarrow> string option" where
  "config_value (Cfg p v) = Some v"
| "config_value _ = None"

fun assign_at :: "dir list \<Rightarrow> val \<Rightarrow> val \<Rightarrow> val" where
  "assign_at [] v t = assignTester v t"
| "assign_at (InExpression # ds) (Unary e c n) t = Unary (assign_at ds e t) c n"
| "assign_at (InA # ds) (Binary a opr b) t = Binary (assign_at ds a t) opr b"
| "assign_at (InB # ds) (Binary a opr b) t = Binary a opr (assign_at ds b t)"
| "assign_at ds v t = v"

definition testLoaded ::
  "bool \<Rightarrow> nat \<Rightarrow> cm \<Rightarrow> ((jserror + cm_event list) \<times> cm) option" where
  "testLoaded assert k m =
     (if length (cm_requests m) \<le> k then None
      else (case cm_requests m ! k of
              (pos, c) \<Rightarrow>
                (let m' = m\<lparr>cm_expression :=
                               assign_at pos (cm_expression m)
                                 (TesterV (Tester assert (config_value c))),
                             cm_count := map_option (\<lambda>n. n - 1) (cm_count m),
                             cm_requests := take k (cm_requests m) @ drop (Suc k) (cm_requests m)\<rparr>
                 in if cm_count m' = Some 0
                    then (case onReady m' of
                            Inl err \<Rightarrow> Some (Inl err, m')
                          | Inr (m'', evs) \<Rightarrow> Some (Inr evs, m''))
                    else Some (Inr [], m'))))"

text \<open>
  A test publishes \<open>change\<close>: the tester of the leaf at \<open>pos\<close>, subscribed first, sets its
  dirty flag, and then \<open>_onTestResultsChanged\<close> of the manager runs. \<open>assert\<close> is what the
  assertion of the test yields from now on.
\<close>

fun mark_changed :: "dir list \<Rightarrow> bool \<Rightarrow> val \<Rightarrow> val" where
  "mark_changed [] assert (Unary (TesterV t) c n) =
     Unary (TesterV (t\<lparr>t_changed := True, t_assert := assert\<rparr>)) c n"
| "mark_changed (InExpression # ds) assert (Unary e c n) = Unary (mark_changed ds assert e) c n"
| "mark_changed (InA # ds) assert (Binary a opr b) = Binary (mark_changed ds assert a) opr b"
| "mark_changed (InB # ds) assert (Binary a opr b) = Binary a opr (mark_changed ds assert b)"
| "mark_changed ds assert v = v"

definition testChanged :: "dir list \<Rightarrow> bool \<Rightarrow> cm \<Rightarrow> (jserror + cm_event list) \<times> cm" where
  "testChanged pos assert m =
     (let m' = m\<lparr>cm_expression := mark_changed pos assert (cm_expression m)\<rparr>
      in case onTestResultsChanged m' of
           Inl err \<Rightarrow> (Inl err, m')
         | Inr (m'', evs) \<Rightarrow> (Inr evs, m''))"

text \<open>
  A tree as it is in the Ready state: every leaf holds a tester. \<open>verdict\<close> is the truth
  value of such a tree, each tester contributing the result a call of its \<open>succeeds\<close> gives.
\<close>

fun resolved :: "val \<Rightarrow> bool" where
  "resolved (TesterV t) = True"
| "resolved (Unary e c n) = resolved e"
| "resolved (Binary a opr b) = (resolved a \<and> resolved b)"
| "resolved _ = False"

fun verdict :: "val \<Rightarrow> bool" where
  "verdict (TesterV t) = fst (tester_succeeds t)"
| "verdict (Unary e c n) = (verdict e \<noteq> n)"
| "verdict (Binary a opr b) =
     (if opr = ''and'' then verdict a \<and> verdict b else verdict a \<or> verdict b)"
| "verdict _ = False"

text \<open>
  Evaluating a parsed tree under an assignment of assertion results to its leaves: every
  leaf that \<open>getConfig\<close> lists receives a fresh tester, as the callbacks of
  \<open>_loadTesterToExpression\<close> do, and \<open>succeeds\<close> is called on the root. \<open>asg\<close> gives the
  assertion result for a leaf configuration.
\<close>

definition bind_leaves :: "(val \<Rightarrow> bool) \<Rightarrow> val \<Rightarrow> jserror + val" where
  "bind_leaves asg e =
     (case getConfig [] e of
        Inl err \<Rightarrow> Inl err
      | Inr cfg \<Rightarrow>
          Inr (fold (\<lambda>(pos, c) e'. assign_at pos e' (TesterV (Tester (asg c) (config_value c))))
                    (loadExpressionTests cfg) e))"

definition evaluate :: "(val \<Rightarrow> bool) \<Rightarrow> val \<Rightarrow> jserror + bool" where
  "evaluate asg e =
     (case bind_leaves asg e of
        Inl err \<Rightarrow> Inl err
      | Inr e' \<Rightarrow> (case succeeds e' of Inl err \<Rightarrow> Inl err | Inr (r, e'') \<Rightarrow> Inr r))"

section \<open>Utils.mergeObjects\<close>

text \<open>
  Option objects are data: the defaults registered for a module and the options of a
  declaration, parsed from JSON or handed over as an object. Numbers are integers here. An
  array is a list of slots, \<open>None\<close> being a hole (an index below \<open>length\<close> that was never
  written; \<open>dst[i] = x\<close> beyond the end leaves holes), and an object is the list of its own
  properties in insertion order, each name once.
\<close>

datatype data =
    JUndefined
  | JNull
  | JBool bool
  | JNum int
  | JStr string
  | JArr "data option list"
  | JObj "(string \<times> data) list"

fun truthy :: "data \<Rightarrow> bool" where
  "truthy JUndefined = False"
| "truthy JNull = False"
| "truthy (JBool b) = b"
| "truthy (JNum n) = (n \<noteq> 0)"
| "truthy (JStr s) = (s \<noteq> [])"
| "truthy _ = True"

text \<open>\<open>typeof x === 'object'\<close> holds of \<open>null\<close>, of arrays and of objects.\<close>

fun typeof_object :: "data \<Rightarrow> bool" where
  "typeof_object JNull = True"
| "typeof_object (JArr xs) = True"
| "typeof_object (JObj ps) = True"
| "typeof_object _ = False"

text \<open>Decimal notation, for property names of array indices and for \<open>String(n)\<close>.\<close>

function show_nat :: "nat \<Rightarrow> string" where
  "show_nat n =
     (if n < 10 then [''0123456789'' ! n]
      else show_nat (n div 10) @ [''0123456789'' ! (n mod 10)])"
  by pat_completeness auto
termination
  by (relation "measure id") auto

definition show_int :: "int \<Rightarrow> string" where
  "show_int n = (if n < 0 then ''-'' @ show_nat (nat (- n)) else show_nat (nat n))"

text \<open>\<open>String(e)\<close> for a value that is not of type object.\<close>

fun to_string :: "data \<Rightarrow> string" where
  "to_string JUndefined = ''undefined''"
| "to_string (JBool b) = (if b then ''true'' else ''false'')"
| "to_string (JNum n) = show_int n"
| "to_string (JStr s) = s"
| "to_string _ = ''[object Object]''"

fun is_infix :: "string \<Rightarrow> string \<Rightarrow> bool" where
  "is_infix p [] = (p = [])"
| "is_infix p (c # cs) = (take (length p) (c # cs) = p \<or> is_infix p cs)"

text \<open>
  Reading a property. Of an array or a string the model knows the indices and \<open>length\<close>, of
  an object its own properties; properties inherited from the prototypes (the methods of
  \<open>Array.prototype\<close>, \<open>Object.prototype\<close> and so on) are outside the model, so no key is
  taken to name one. Reading a property of \<open>undefined\<close> or \<open>null\<close> throws.
\<close>

definition key_index :: "nat \<Rightarrow> string \<Rightarrow> nat option" where
  "key_index n key = find (\<lambda>i. show_nat i = key) [0..<n]"

fun prop_read :: "data \<Rightarrow> string \<Rightarrow> jserror + data" where
  "prop_read JUndefined key = Inl TypeError"
| "prop_read JNull key = Inl TypeError"
| "prop_read (JObj ps) key = Inr (case map_of ps key of None \<Rightarrow> JUndefined | Some v \<Rightarrow> v)"
| "prop_read (JArr xs) key =
     Inr (case key_index (length xs) key of
            Some i \<Rightarrow> (case xs ! i of None \<Rightarrow> JUndefined | Some v \<Rightarrow> v)
          | None \<Rightarrow> if key = ''length'' then JNum (int (length xs)) else JUndefined)"
| "prop_read (JStr s) key =
     Inr (case key_index (length s) key of
            Some i \<Rightarrow> JStr [s ! i]
          | None \<Rightarrow> if key = ''length'' then JNum (int (length s)) else JUndefined)"
| "prop_read _ key = Inr JUndefined"

text \<open>\<open>target[i]\<close> for a number \<open>i\<close> is the property named by its decimal notation.\<close>

definition index_read :: "data \<Rightarrow> nat \<Rightarrow> jserror + data" where
  "index_read target i = prop_read target (show_nat i)"

text \<open>\<open>dst[key] = v\<close> on an object, and \<open>dst[i] = v\<close> on an array.\<close>

fun set_prop :: "string \<Rightarrow> data \<Rightarrow> (string \<times> data) list \<Rightarrow> (string \<times> data) list" where
  "set_prop key v [] = [(key, v)]"
| "set_prop key v ((k, w) # ps) =
     (if k = key then (k, v) # ps else (k, w) # set_prop key v ps)"

definition set_index :: "data option list \<Rightarrow> nat \<Rightarrow> data \<Rightarrow> data option list" where
  "set_index dst i v =
     (if i < length dst then dst[i := Some v]
      else dst @ replicate (i - length dst) None @ [Some v])"

text \<open>
  The enumerable own properties, as \<open>Object.keys\<close> walks them: of an array the indices
  that are not holes, of a string its characters.
\<close>

fun own_entries :: "data \<Rightarrow> (string \<times> data) list" where
  "own_entries (JObj ps) = ps"
| "own_entries (JArr xs) =
     concat (map (\<lambda>i. case xs ! i of None \<Rightarrow> [] | Some v \<Rightarrow> [(show_nat i, v)]) [0..<length xs])"
| "own_entries (JStr s) = map (\<lambda>i. (show_nat i, JStr [s ! i])) [0..<length s]"
| "own_entries _ = []"

text \<open>\<open>[].concat(target)\<close>: the elements of an array, any other value as one element.\<close>

fun concat_target :: "data \<Rightarrow> data option list" where
  "concat_target (JArr xs) = xs"
| "concat_target v = [Some v]"

text \<open>
  \<open>target.indexOf(e) === -1\<close> for a value \<open>e\<close> that is not of type object. An array
  compares with \<open>===\<close> and passes over holes, a string searches for \<open>String(e)\<close>, and any
  other target has no method \<open>indexOf\<close>, so the call throws.
\<close>

fun indexOf_absent :: "data \<Rightarrow> data \<Rightarrow> jserror + bool" where
  "indexOf_absent (JArr xs) e = Inr (Some e \<notin> set xs)"
| "indexOf_absent (JStr s) e = Inr (\<not> is_infix (to_string e) s)"
| "indexOf_absent _ e = Inl TypeError"

text \<open>
  \<open>mergeObjects\<close> (lines 230-282). \<open>merge_elements\<close> is the \<open>forEach\<close> over the source
  array, with the array \<open>dst\<close> built so far and the index; \<open>merge_keys\<close> is the \<open>forEach\<close>
  over the keys of the source object.
\<close>

fun mergeObjects :: "data \<Rightarrow> data \<Rightarrow> jserror + data"
and merge_elements ::
  "data \<Rightarrow> data option list \<Rightarrow> nat \<Rightarrow> data option list \<Rightarrow> jserror + data option list"
and merge_keys ::
  "data \<Rightarrow> (string \<times> data) list \<Rightarrow> (string \<times> data) list \<Rightarrow> jserror + (string \<times> data) list"
where
  "mergeObjects target (JArr src) =
     (let target' = (if truthy target then target else JArr [])
      in case merge_elements target' (concat_target target') 0 src of
           Inl err \<Rightarrow> Inl err
         | Inr dst \<Rightarrow> Inr (JArr dst))"
| "mergeObjects target (JObj src) =
     (case merge_keys target (if truthy target \<and> typeof_object target
                              then own_entries target else []) src of
        Inl err \<Rightarrow> Inl err
      | Inr dst \<Rightarrow> Inr (JObj dst))"
| "mergeObjects target src =
     Inr (JObj (fold (\<lambda>(key, v). set_prop key v)
                     (if truthy src then own_entries src else [])
                     (if truthy target \<and> typeof_object target then own_entries target else [])))"
| "merge_elements target dst i [] = Inr dst"
| "merge_elements target dst i (None # rest) = merge_elements target dst (Suc i) rest"
| "merge_elements target dst i (Some e # rest) =
     (if typeof_object e then
        (case index_read target i of
           Inl err \<Rightarrow> Inl err
         | Inr t \<Rightarrow>
             (case mergeObjects t e of
                Inl err \<Rightarrow> Inl err
              | Inr m \<Rightarrow> merge_elements target (set_index dst i m) (Suc i) rest))
      else
        (case indexOf_absent target e of
           Inl err \<Rightarrow> Inl err
         | Inr absent \<Rightarrow>
             merge_elements target (if absent then dst @ [Some e] else dst) (Suc i) rest))"
| "merge_keys target dst [] = Inr dst"
| "merge_keys target dst ((key, v) # rest) =
     (if \<not> typeof_object v \<or> \<not> truthy v then merge_keys target (set_prop key v dst) rest
      else
        (case prop_read target key of
           Inl err \<Rightarrow> Inl err
         | Inr t \<Rightarrow>
             if \<not> truthy t then merge_keys target (set_prop key v dst) rest
             else (case mergeObjects t v of
                     Inl err \<Rightarrow> Inl err
                   | Inr m \<Rightarrow> merge_keys target (set_prop key m dst) rest)))"

section \<open>Observer\<close>

text \<open>
  The observer keeps the subscriptions of an object in a list on the object. The
  handlers that the engine itself subscribes are methods of a module controller or of the
  node, bound to their object; the list records which method it is.

  \<open>subscribe\<close> (lines 320-337) means to skip a subscription that is already there, but its
  loop runs \<open>for (; i<l; i++)\<close> with \<open>l\<close> being the array of subscriptions, not its length:
  the comparison of a number with an array of objects is false, the loop body never runs,
  and every call appends. \<open>unsubscribe\<close> (lines 347-362) removes the last subscription that
  matches. \<open>publish\<close> (lines 372-398) collects the matching subscriptions first and then
  calls them in the order of subscription.
\<close>

datatype evtype = EvReady | EvChange | EvAvailable | EvLoad | EvUnload

datatype handler =
    McOnReady
  | McOnConditionsChange
  | NodeOnModuleReady
  | NodeOnModuleAvailable
  | NodeOnActiveModuleUnload

text \<open>
  Each of these methods is subscribed to one event type only, which the list therefore
  need not repeat: \<open>_onReady\<close> and \<open>_onConditionsChange\<close> of the controller to \<open>ready\<close> and
  \<open>change\<close> of its conditions manager, \<open>_onModuleReady\<close>, \<open>_onModuleAvailable\<close> and
  \<open>_onActiveModuleUnload\<close> of the node to \<open>ready\<close>, \<open>available\<close> and \<open>unload\<close> of a
  controller.
\<close>

fun handler_event :: "handler \<Rightarrow> evtype" where
  "handler_event McOnReady = EvReady"
| "handler_event McOnConditionsChange = EvChange"
| "handler_event NodeOnModuleReady = EvReady"
| "handler_event NodeOnModuleAvailable = EvAvailable"
| "handler_event NodeOnActiveModuleUnload = EvUnload"

type_synonym subscriptions = "handler list"

definition subscribe :: "subscriptions \<Rightarrow> handler \<Rightarrow> subscriptions" where
  "subscribe subs fn = subs @ [fn]"

definition unsubscribe :: "subscriptions \<Rightarrow> handler \<Rightarrow> subscriptions" where
  "unsubscribe subs fn = rev (remove1 fn (rev subs))"

definition subscribers :: "subscriptions \<Rightarrow> evtype \<Rightarrow> handler list" where
  "subscribers subs t = filter (\<lambda>fn. handler_event fn = t) subs"

section \<open>ModuleController\<close>

text \<open>
  A module instance is an object of code outside the engine. The controller reads two
  things of it: properties by name, which hold data or a function, and the target of event
  propagation, which \<open>_onLoad\<close> sets to the controller. A function may throw. The module
  itself is the constructor \<open>new Module(target,options)\<close> for the fixed target.
\<close>

datatype property = Value data | Method "data list \<Rightarrow> jserror + data"

record module_instance =
  i_props :: "(string \<times> property) list"
  i_propagates :: bool

type_synonym module_class = "data \<Rightarrow> jserror + module_instance"

fun prop_truthy :: "property \<Rightarrow> bool" where
  "prop_truthy (Value v) = truthy v"
| "prop_truthy (Method f) = True"

text \<open>
  The controller (lines 1255-1288). \<open>mc_conditions\<close> is \<open>_options.conditions\<close>.
  \<open>mc_options\<close> is the outcome of lines 1446-1456 for \<open>_options.options\<close>: the value itself,
  or what \<open>JSON.parse\<close> makes of it when it is a string, \<open>Inl Error\<close> when the string is
  not valid JSON. The subscriptions on the conditions manager are kept beside it.
\<close>

record mc =
  mc_path :: string
  mc_conditions :: val
  mc_options :: "jserror + data"
  mc_Module :: "module_class option"
  mc_moduleInstance :: "module_instance option"
  mc_conditionsManager :: cm
  mc_ready :: bool
  mc_available :: bool
  mc_subscriptions :: subscriptions
  mc_cmSubscriptions :: subscriptions

fun is_undefined :: "val \<Rightarrow> bool" where
  "is_undefined Undefined = True"
| "is_undefined _ = False"

definition isConditioned :: "mc \<Rightarrow> bool" where
  "isConditioned m = (\<not> is_undefined (mc_conditions m))"

definition isActive :: "mc \<Rightarrow> bool" where
  "isActive m = (case mc_moduleInstance m of None \<Rightarrow> False | Some inst \<Rightarrow> True)"

definition isReady :: "mc \<Rightarrow> bool" where
  "isReady m = mc_ready m"

text \<open>\<open>isAvailable\<close> (lines 1296-1299) stores the verdict it returns.\<close>

definition isAvailable :: "mc \<Rightarrow> bool \<times> mc" where
  "isAvailable m =
     (getSuitability (mc_conditionsManager m),
      m\<lparr>mc_available := getSuitability (mc_conditionsManager m)\<rparr>)"

definition ModuleController ::
  "nat \<Rightarrow> string \<Rightarrow> val \<Rightarrow> jserror + data \<Rightarrow> (jserror + mc) option" where
  "ModuleController fuel path conditions options =
     (if path = [] then Some (Inl Error)
      else (case ConditionsManager fuel conditions of
              None \<Rightarrow> None
            | Some (Inl err) \<Rightarrow> Some (Inl err)
            | Some (Inr m) \<Rightarrow>
                Some (Inr \<lparr>mc_path = path, mc_conditions = conditions, mc_options = options,
                           mc_Module = None, mc_moduleInstance = None,
                           mc_conditionsManager = m,
                           mc_ready = (is_undefined conditions \<or> getSuitability m),
                           mc_available = False,
                           mc_subscriptions = [],
                           mc_cmSubscriptions = subscribe [] McOnReady\<rparr>)))"

text \<open>
  What a method of the controller does to the world outside its own fields, in order:
  taking the propagation target off the instance, calling the instance's \<open>unload\<close>, and
  publishing an event on the controller.
\<close>

datatype effect = RemovePropagationTarget | InstanceUnload | Publish evtype

text \<open>
  \<open>unload\<close> (lines 1480-1505). The result is what the call returns or throws, the
  controller afterwards, and the effects. A property \<open>unload\<close> that is truthy and not a
  function makes the call \<open>this._moduleInstance.unload()\<close> throw a TypeError.
\<close>

definition unload :: "mc \<Rightarrow> (jserror + bool) \<times> mc \<times> effect list" where
  "unload m =
     (let m1 = m\<lparr>mc_available := False\<rparr> in
      case mc_moduleInstance m1 of
        None \<Rightarrow> (Inr False, m1, [])
      | Some inst \<Rightarrow>
          (let m2 = m1\<lparr>mc_moduleInstance := Some (inst\<lparr>i_propagates := False\<rparr>)\<rparr>;
               finish = (\<lambda>effs. (Inr True, m2\<lparr>mc_moduleInstance := None\<rparr>,
                                  effs @ [Publish EvUnload]))
           in case map_of (i_props inst) ''unload'' of
                None \<Rightarrow> finish [RemovePropagationTarget]
              | Some hook \<Rightarrow>
                  if \<not> prop_truthy hook then finish [RemovePropagationTarget]
                  else (case hook of
                          Value v \<Rightarrow> (Inl TypeError, m2, [RemovePropagationTarget])
                        | Method f \<Rightarrow>
                            (case f [] of
                               Inl err \<Rightarrow>
                                 (Inl err, m2, [RemovePropagationTarget, InstanceUnload])
                             | Inr r \<Rightarrow> finish [RemovePropagationTarget, InstanceUnload]))))"

text \<open>
  \<open>execute\<close> (lines 1515-1537): the result is the pair of status and response.
  \<open>params\<close> is the list of arguments. \<open>F.apply\<close> of a value that is not a function
  throws a TypeError.
\<close>

definition execute :: "mc \<Rightarrow> string \<Rightarrow> data list \<Rightarrow> jserror + (nat \<times> data)" where
  "execute m method params =
     (case mc_moduleInstance m of
        None \<Rightarrow> Inr (404, JNull)
      | Some inst \<Rightarrow>
          (case map_of (i_props inst) method of
             None \<Rightarrow> Inl Error
           | Some F \<Rightarrow>
               if \<not> prop_truthy F then Inl Error
               else (case F of
                       Value v \<Rightarrow> Inl TypeError
                     | Method f \<Rightarrow>
                         (case f params of
                            Inl err \<Rightarrow> Inl err
                          | Inr r \<Rightarrow> Inr (200, r)))))"

text \<open>
  \<open>_onLoad\<close> (lines 1432-1471), given the registered modules (path and configuration,
  \<open>JUndefined\<close> for a module registered without one). \<open>load\<close> sets \<open>_Module\<close> before it
  calls \<open>_onLoad\<close>.
\<close>

definition onLoad :: "(string \<times> data) list \<Rightarrow> mc \<Rightarrow> (jserror + unit) \<times> mc \<times> effect list" where
  "onLoad modules m =
     (case isAvailable m of
        (available, m1) \<Rightarrow>
          if \<not> available then (Inr (), m1, [])
          else if mc_path m1 = [] then (Inl Error, m1, [])
          else
            (let moduleOptions = (case map_of modules (mc_path m1) of
                                    None \<Rightarrow> JObj []
                                  | Some config \<Rightarrow> config)
             in case mc_options m1 of
                  Inl err \<Rightarrow> (Inl Error, m1, [])
                | Inr elementOptions \<Rightarrow>
                    (case (if truthy moduleOptions
                           then mergeObjects moduleOptions elementOptions
                           else Inr elementOptions) of
                       Inl err \<Rightarrow> (Inl err, m1, [])
                     | Inr options \<Rightarrow>
                         (case mc_Module m1 of
                            None \<Rightarrow> (Inl TypeError, m1, [])
                          | Some Module \<Rightarrow>
                              (case Module options of
                                 Inl err \<Rightarrow> (Inl err, m1, [])
                               | Inr inst \<Rightarrow>
                                   (Inr (),
                                    m1\<lparr>mc_moduleInstance := Some (inst\<lparr>i_propagates := True\<rparr>)\<rparr>,
                                    [Publish EvLoad]))))))"

section \<open>Node\<close>

text \<open>
  The node (lines 1546-1570) with what its methods reach: the controllers in the order of
  declaration, the active controller as an index into them, the registered modules, the
  requests for modules that \<open>load\<close> has handed to the asynchronous loader and that are not
  answered yet, and the events published on the controllers so far.
\<close>

record node =
  n_moduleControllers :: "mc list"
  n_activeModuleController :: "nat option"
  n_modules :: "(string \<times> data) list"
  n_requests :: "nat list"
  n_published :: "(nat \<times> evtype) list"

text \<open>
  A call either returns or throws, and in both cases leaves a state behind. The handlers
  call each other through \<open>Observer.publish\<close>; the fuel bounds the depth of the calls, and
  \<open>None\<close> means that it ran out.
\<close>

datatype outcome = Returned | Threw jserror

type_synonym result = "(outcome \<times> node) option"

definition andThen :: "result \<Rightarrow> (node \<Rightarrow> result) \<Rightarrow> result" where
  "andThen r f =
     (case r of
        None \<Rightarrow> None
      | Some (Returned, s) \<Rightarrow> f s
      | Some (Threw err, s) \<Rightarrow> Some (Threw err, s))"

definition ctrl :: "node \<Rightarrow> nat \<Rightarrow> mc" where
  "ctrl s i = n_moduleControllers s ! i"

definition set_ctrl :: "nat \<Rightarrow> mc \<Rightarrow> node \<Rightarrow> node" where
  "set_ctrl i m s = s\<lparr>n_moduleControllers := (n_moduleControllers s)[i := m]\<rparr>"

fun published :: "nat \<Rightarrow> effect list \<Rightarrow> (nat \<times> evtype) list" where
  "published i [] = []"
| "published i (Publish t # effs) = (i, t) # published i effs"
| "published i (eff # effs) = published i effs"

definition record_effects :: "nat \<Rightarrow> effect list \<Rightarrow> node \<Rightarrow> node" where
  "record_effects i effs s = s\<lparr>n_published := n_published s @ published i effs\<rparr>"

definition outcome_of :: "jserror + 'a \<Rightarrow> outcome" where
  "outcome_of r = (case r of Inl err \<Rightarrow> Threw err | Inr x \<Rightarrow> Returned)"

text \<open>
  \<open>ModuleController.load\<close> (lines 1405-1425) of controller \<open>i\<close>: with the module at hand
  \<open>_onLoad\<close> runs at once, otherwise the request goes to the loader. No method of the
  engine subscribes to \<open>load\<close>.
\<close>

definition run_onLoad :: "nat \<Rightarrow> node \<Rightarrow> outcome \<times> node" where
  "run_onLoad i s =
     (case onLoad (n_modules s) (ctrl s i) of
        (r, m, effs) \<Rightarrow> (outcome_of r, record_effects i effs (set_ctrl i m s)))"

definition load :: "nat \<Rightarrow> node \<Rightarrow> outcome \<times> node" where
  "load i s =
     (case mc_Module (ctrl s i) of
        Some Module \<Rightarrow> run_onLoad i s
      | None \<Rightarrow> (Returned, s\<lparr>n_requests := n_requests s @ [i]\<rparr>))"

text \<open>\<open>_getSuitableActiveModuleController\<close> (lines 1766-1783), scanning from index \<open>i\<close>.\<close>

function getSuitable_from :: "nat \<Rightarrow> node \<Rightarrow> nat option \<times> node" where
  "getSuitable_from i s =
     (if length (n_moduleControllers s) \<le> i then (None, s)
      else (case isAvailable (ctrl s i) of
              (available, m) \<Rightarrow>
                if available then (Some i, set_ctrl i m s)
                else getSuitable_from (Suc i) (set_ctrl i m s)))"
  by pat_completeness auto
termination
  by (relation "measure (\<lambda>(i, s). length (n_moduleControllers s) - i)")
     (auto simp: set_ctrl_def)

declare getSuitable_from.simps [simp del]

definition getSuitableActiveModuleController :: "node \<Rightarrow> nat option \<times> node" where
  "getSuitableActiveModuleController s = getSuitable_from 0 s"

text \<open>
  The methods that call each other when a controller unloads: \<open>unload\<close> of controller \<open>i\<close>
  with the calls of its subscribers (\<open>unload_handlers\<close>, one call of
  \<open>_onActiveModuleUnload\<close> for each subscription collected at the publish),
  \<open>_onActiveModuleUnload\<close> (lines 1746-1759), \<open>_cleanActiveModuleController\<close>
  (lines 1725-1740) and \<open>_setActiveModuleController\<close> (lines 1704-1719).
\<close>

fun node_unload :: "nat \<Rightarrow> nat \<Rightarrow> node \<Rightarrow> result"
and unload_handlers :: "nat \<Rightarrow> nat \<Rightarrow> node \<Rightarrow> result"
and onActiveModuleUnload :: "nat \<Rightarrow> node \<Rightarrow> result"
and cleanActiveModuleController :: "nat \<Rightarrow> node \<Rightarrow> result"
and setActiveModuleController :: "nat \<Rightarrow> nat \<Rightarrow> node \<Rightarrow> result"
where
  "node_unload 0 i s = None"
| "node_unload (Suc fuel) i s =
     (case unload (ctrl s i) of
        (r, m, effs) \<Rightarrow>
          (let s' = record_effects i effs (set_ctrl i m s) in
           case r of
             Inl err \<Rightarrow> Some (Threw err, s')
           | Inr unloaded \<Rightarrow>
               if unloaded
               then unload_handlers fuel (length (subscribers (mc_subscriptions m) EvUnload)) s'
               else Some (Returned, s')))"
| "unload_handlers 0 k s = None"
| "unload_handlers (Suc fuel) k s =
     (case k of
        0 \<Rightarrow> Some (Returned, s)
      | Suc k' \<Rightarrow> andThen (onActiveModuleUnload fuel s) (unload_handlers fuel k'))"
| "onActiveModuleUnload 0 s = None"
| "onActiveModuleUnload (Suc fuel) s =
     andThen (cleanActiveModuleController fuel s)
       (\<lambda>s1. case getSuitableActiveModuleController s1 of
                (None, s2) \<Rightarrow> Some (Returned, s2)
              | (Some j, s2) \<Rightarrow> setActiveModuleController fuel j s2)"
| "cleanActiveModuleController 0 s = None"
| "cleanActiveModuleController (Suc fuel) s =
     (case n_activeModuleController s of
        None \<Rightarrow> Some (Returned, s)
      | Some a \<Rightarrow>
          andThen
            (node_unload fuel a
               (set_ctrl a ((ctrl s a)\<lparr>mc_subscriptions :=
                               unsubscribe (mc_subscriptions (ctrl s a)) NodeOnActiveModuleUnload\<rparr>) s))
            (\<lambda>s1. Some (Returned, s1\<lparr>n_activeModuleController := None\<rparr>)))"
| "setActiveModuleController 0 i s = None"
| "setActiveModuleController (Suc fuel) i s =
     (if n_activeModuleController s = Some i then Some (Returned, s)
      else andThen (cleanActiveModuleController fuel s)
             (\<lambda>s1. Some (load i
                      (set_ctrl i ((ctrl s1 i)\<lparr>mc_subscriptions :=
                                      subscribe (mc_subscriptions (ctrl s1 i)) NodeOnActiveModuleUnload\<rparr>)
                         (s1\<lparr>n_activeModuleController := Some i\<rparr>)))))"

text \<open>Calling the same handler once for each of \<open>k\<close> subscriptions.\<close>

fun times :: "nat \<Rightarrow> (node \<Rightarrow> result) \<Rightarrow> node \<Rightarrow> result" where
  "times 0 f s = Some (Returned, s)"
| "times (Suc k) f s = andThen (f s) (times k f)"

text \<open>
  \<open>_onModuleAvailable\<close> (lines 1675-1697) for controller \<open>k\<close>. The loop returns at the
  first other controller that is available and conditioned; \<open>blocked_from\<close> is the loop
  from index \<open>i\<close>, with the writes of \<open>isAvailable\<close>.
\<close>

function blocked_from :: "nat \<Rightarrow> nat \<Rightarrow> node \<Rightarrow> bool \<times> node" where
  "blocked_from k i s =
     (if length (n_moduleControllers s) \<le> i then (False, s)
      else if i = k then blocked_from k (Suc i) s
      else (case isAvailable (ctrl s i) of
              (available, m) \<Rightarrow>
                if available \<and> isConditioned m then (True, set_ctrl i m s)
                else blocked_from k (Suc i) (set_ctrl i m s)))"
  by pat_completeness auto
termination
  by (relation "measure (\<lambda>(k, i, s). length (n_moduleControllers s) - i)")
     (auto simp: set_ctrl_def)

declare blocked_from.simps [simp del]

definition onModuleAvailable :: "nat \<Rightarrow> nat \<Rightarrow> node \<Rightarrow> result" where
  "onModuleAvailable fuel k s =
     (case blocked_from k 0 s of
        (blocked, s1) \<Rightarrow>
          if blocked then Some (Returned, s1)
          else setActiveModuleController fuel k s1)"

text \<open>\<open>_onModulesReady\<close> (lines 1653-1667) and \<open>_onModuleReady\<close> (lines 1632-1646).\<close>

definition onModulesReady :: "nat \<Rightarrow> node \<Rightarrow> result" where
  "onModulesReady fuel s =
     andThen
       (case getSuitableActiveModuleController s of
          (None, s1) \<Rightarrow> Some (Returned, s1)
        | (Some j, s1) \<Rightarrow> setActiveModuleController fuel j s1)
       (\<lambda>s2. Some (Returned,
                s2\<lparr>n_moduleControllers :=
                      map (\<lambda>m. m\<lparr>mc_subscriptions :=
                                    subscribe (mc_subscriptions m) NodeOnModuleAvailable\<rparr>)
                          (n_moduleControllers s2)\<rparr>))"

definition onModuleReady :: "nat \<Rightarrow> node \<Rightarrow> result" where
  "onModuleReady fuel s =
     (if list_all isReady (n_moduleControllers s) then onModulesReady fuel s
      else Some (Returned, s))"

text \<open>
  The handlers of the controller: \<open>_onAvailable\<close> (lines 1369-1377), \<open>_onReady\<close>
  (lines 1347-1363) and \<open>_onConditionsChange\<close> (lines 1384-1396), each with the calls of
  the node's handlers that its publishing makes.
\<close>

definition onAvailable :: "nat \<Rightarrow> nat \<Rightarrow> node \<Rightarrow> result" where
  "onAvailable fuel i s =
     (let s1 = record_effects i [Publish EvAvailable]
                 (set_ctrl i ((ctrl s i)\<lparr>mc_available := True\<rparr>) s)
      in times (length (subscribers (mc_subscriptions (ctrl s1 i)) EvAvailable))
           (onModuleAvailable fuel i) s1)"

definition mcOnReady :: "nat \<Rightarrow> nat \<Rightarrow> bool \<Rightarrow> node \<Rightarrow> result" where
  "mcOnReady fuel i suitable s =
     (let s1 = record_effects i [Publish EvReady]
                 (set_ctrl i ((ctrl s i)\<lparr>mc_ready := True,
                                         mc_cmSubscriptions :=
                                           subscribe (mc_cmSubscriptions (ctrl s i))
                                             McOnConditionsChange\<rparr>) s)
      in andThen
           (times (length (subscribers (mc_subscriptions (ctrl s1 i)) EvReady))
              (onModuleReady fuel) s1)
           (\<lambda>s2. if suitable then onAvailable fuel i s2 else Some (Returned, s2)))"

definition mcOnConditionsChange :: "nat \<Rightarrow> nat \<Rightarrow> node \<Rightarrow> result" where
  "mcOnConditionsChange fuel i s =
     (let suitable = getSuitability (mc_conditionsManager (ctrl s i))
      in andThen
           (if isActive (ctrl s i) \<and> \<not> suitable then node_unload fuel i s
            else Some (Returned, s))
           (\<lambda>s1. if \<not> isActive (ctrl s1 i) \<and> suitable then onAvailable fuel i s1
                  else Some (Returned, s1)))"

text \<open>
  The events a conditions manager publishes reach the handlers of its controller, one
  event after the other.
\<close>

fun dispatch :: "nat \<Rightarrow> nat \<Rightarrow> cm_event list \<Rightarrow> node \<Rightarrow> result" where
  "dispatch fuel i [] s = Some (Returned, s)"
| "dispatch fuel i (CmChange # evs) s =
     andThen
       (times (length (subscribers (mc_cmSubscriptions (ctrl s i)) EvChange))
          (mcOnConditionsChange fuel i) s)
       (dispatch fuel i evs)"
| "dispatch fuel i (CmReady suitable # evs) s =
     andThen
       (times (length (subscribers (mc_cmSubscriptions (ctrl s i)) EvReady))
          (mcOnReady fuel i suitable) s)
       (dispatch fuel i evs)"

text \<open>
  \<open>_createModuleControllers\<close> (lines 1791-1849) makes one controller for each declaration
  found on the element; a declaration is the path, the conditions and the options. A
  constructor that throws ends the call. \<open>pfuel\<close> is the fuel of the parser.
\<close>

fun createModuleControllers ::
  "nat \<Rightarrow> (string \<times> val \<times> (jserror + data)) list \<Rightarrow> (jserror + mc list) option" where
  "createModuleControllers pfuel [] = Some (Inr [])"
| "createModuleControllers pfuel ((path, conditions, options) # specs) =
     (case ModuleController pfuel path conditions options of
        None \<Rightarrow> None
      | Some (Inl err) \<Rightarrow> Some (Inl err)
      | Some (Inr m) \<Rightarrow>
          (case createModuleControllers pfuel specs of
             None \<Rightarrow> None
           | Some (Inl err) \<Rightarrow> Some (Inl err)
           | Some (Inr ms) \<Rightarrow> Some (Inr (m # ms))))"

text \<open>\<open>init\<close> (lines 1596-1625); \<open>init_loop\<close> is its loop over the controllers.\<close>

fun init_loop :: "nat \<Rightarrow> nat list \<Rightarrow> node \<Rightarrow> result" where
  "init_loop fuel [] s = Some (Returned, s)"
| "init_loop fuel (i # rest) s =
     andThen
       (if isReady (ctrl s i) then onModuleReady fuel s
        else Some (Returned,
               set_ctrl i ((ctrl s i)\<lparr>mc_subscriptions :=
                              subscribe (mc_subscriptions (ctrl s i)) NodeOnModuleReady\<rparr>) s))
       (init_loop fuel rest)"

definition init ::
  "nat \<Rightarrow> nat \<Rightarrow> (string \<times> val \<times> (jserror + data)) list \<Rightarrow> node \<Rightarrow> result" where
  "init fuel pfuel specs s =
     (case createModuleControllers pfuel specs of
        None \<Rightarrow> None
      | Some (Inl err) \<Rightarrow> Some (Threw err, s)
      | Some (Inr ms) \<Rightarrow>
          (let s1 = s\<lparr>n_moduleControllers := ms\<rparr>
           in if length ms = 0 then Some (Threw Error, s1)
              else init_loop fuel [0..<length ms] s1))"

text \<open>A node as its constructor leaves it, with the registered modules.\<close>

definition Node :: "(string \<times> data) list \<Rightarrow> node" where
  "Node modules =
     \<lparr>n_moduleControllers = [], n_activeModuleController = None, n_modules = modules,
      n_requests = [], n_published = []\<rparr>"

text \<open>\<open>Node.prototype.execute\<close> (lines 1924-1936).\<close>

definition node_execute :: "node \<Rightarrow> string \<Rightarrow> data list \<Rightarrow> jserror + (nat \<times> data)" where
  "node_execute s method params =
     (case n_activeModuleController s of
        Some a \<Rightarrow> execute (ctrl s a) method params
      | None \<Rightarrow> Inr (404, JNull))"

text \<open>
  What reaches a node from outside after \<open>init\<close>: the loader answers request \<open>k\<close> for a
  test of controller \<open>i\<close>; the test of the leaf at \<open>pos\<close> of controller \<open>i\<close> publishes a
  change; the loader answers a request for the module of controller \<open>i\<close>; \<open>unload\<close> of
  controller \<open>i\<close> is called.
\<close>

datatype input =
    TestLoaded nat nat bool
  | TestChanged nat "dir list" bool
  | ModuleLoaded nat module_class
  | CallUnload nat

definition with_cm :: "nat \<Rightarrow> cm \<Rightarrow> node \<Rightarrow> node" where
  "with_cm i m s = set_ctrl i ((ctrl s i)\<lparr>mc_conditionsManager := m\<rparr>) s"

fun react :: "nat \<Rightarrow> input \<Rightarrow> node \<Rightarrow> result" where
  "react fuel (TestLoaded i k assert) s =
     (if length (n_moduleControllers s) \<le> i then Some (Returned, s)
      else (case testLoaded assert k (mc_conditionsManager (ctrl s i)) of
              None \<Rightarrow> Some (Returned, s)
            | Some (Inl err, m) \<Rightarrow> Some (Threw err, with_cm i m s)
            | Some (Inr evs, m) \<Rightarrow> dispatch fuel i evs (with_cm i m s)))"
| "react fuel (TestChanged i pos assert) s =
     (if length (n_moduleControllers s) \<le> i then Some (Returned, s)
      else (case testChanged pos assert (mc_conditionsManager (ctrl s i)) of
              (Inl err, m) \<Rightarrow> Some (Threw err, with_cm i m s)
            | (Inr evs, m) \<Rightarrow> dispatch fuel i evs (with_cm i m s)))"
| "react fuel (ModuleLoaded i Module) s =
     (if i \<in> set (n_requests s)
      then Some (run_onLoad i
                   (set_ctrl i ((ctrl s i)\<lparr>mc_Module := Some Module\<rparr>)
                      (s\<lparr>n_requests := remove1 i (n_requests s)\<rparr>)))
      else Some (Returned, s))"
| "react fuel (CallUnload i) s =
     (if length (n_moduleControllers s) \<le> i then Some (Returned, s)
      else node_unload fuel i s)"

text \<open>
  A run: the inputs one after the other. An exception ends a handler, not the program:
  the next input meets the state the throwing handler left.
\<close>

fun run :: "nat \<Rightarrow> input list \<Rightarrow> node \<Rightarrow> node option" where
  "run fuel [] s = Some s"
| "run fuel (x # xs) s =
     (case react fuel x s of
        None \<Rightarrow> None
      | Some (r, s') \<Rightarrow> run fuel xs s')"

text \<open>The controllers of a node that hold a module instance.\<close>

definition active_controllers :: "node \<Rightarrow> nat list" where
  "active_controllers s =
     filter (\<lambda>i. isActive (ctrl s i)) [0..<length (n_moduleControllers s)]"

section \<open>Notions used in the statements\<close>

text \<open>
  A controller is available when its conditions manager's verdict is true; this is what
  \<open>isAvailable\<close> returns.
\<close>

definition available_at :: "node \<Rightarrow> nat \<Rightarrow> bool" where
  "available_at s j = getSuitability (mc_conditionsManager (ctrl s j))"

text \<open>
  Two states of a node that differ at most in the \<open>_available\<close> fields of the
  controllers, the field that \<open>isAvailable\<close> writes: the same active controller, the same
  instances, subscriptions, requests and published events.
\<close>

definition same_but_available :: "node \<Rightarrow> node \<Rightarrow> bool" where
  "same_but_available s s' =
     (n_activeModuleController s' = n_activeModuleController s
      \<and> n_requests s' = n_requests s \<and> n_published s' = n_published s
      \<and> n_modules s' = n_modules s
      \<and> map (\<lambda>m. m\<lparr>mc_available := False\<rparr>) (n_moduleControllers s')
          = map (\<lambda>m. m\<lparr>mc_available := False\<rparr>) (n_moduleControllers s))"

text \<open>
  Values for the examples: a controller that is ready and has no conditions at all, with
  or without an instance; a module whose instances have no properties; and a node that
  owns one such controller, loaded and active.
\<close>

definition unconditioned_controller :: "string \<Rightarrow> module_instance option \<Rightarrow> mc" where
  "unconditioned_controller path inst =
     \<lparr>mc_path = path, mc_conditions = Undefined, mc_options = Inr JUndefined,
      mc_Module = None, mc_moduleInstance = inst,
      mc_conditionsManager =
        \<lparr>cm_suitable = True, cm_count = None, cm_expression = Undefined, cm_requests = []\<rparr>,
      mc_ready = True, mc_available = True,
      mc_subscriptions = [NodeOnModuleAvailable],
      mc_cmSubscriptions = [McOnReady]\<rparr>"

definition plain_module :: module_class where
  "plain_module options = Inr \<lparr>i_props = [], i_propagates = False\<rparr>"


section \<open>Properties of the expression engine\<close>

lemma succeeds_resolved:
  "resolved e \<Longrightarrow> \<exists>e'. succeeds e = Inr (verdict e, e') \<and> resolved e'"
proof (induction e)
  case (TesterV t)
  then show ?case by (simp add: tester_succeeds_def Let_def)
next
  case (Unary e c n)
  then obtain e' where "succeeds e = Inr (verdict e, e')" "resolved e'" by auto
  moreover from Unary.prems have "\<not> is_nullish e" "has_succeeds e" by (cases e; simp)+
  ultimately show ?case by simp
next
  case (Binary a opr b)
  then obtain a' where a: "succeeds a = Inr (verdict a, a')" "resolved a'" by auto
  from Binary obtain b' where b: "succeeds b = Inr (verdict b, b')" "resolved b'" by auto
  from Binary.prems have rb: "resolved b" by simp
  show ?case using a b rb by auto
qed simp_all

text \<open>
  A leaf whose bound object has no \<open>succeeds\<close> property fails closed, and a leaf with a
  tester returns the tester's result, negated when the leaf's flag is set.
\<close>

lemma leaf_without_succeeds_fails_closed:
  "succeeds (assignTester (UnaryExpression (Cfg p v) n) Obj) =
     Inr (False, assignTester (UnaryExpression (Cfg p v) n) Obj)"
  by (simp add: UnaryExpression_def)

lemma leaf_with_tester:
  "succeeds (assignTester (UnaryExpression (Cfg p v) n) (TesterV t)) =
     Inr (fst (tester_succeeds t) \<noteq> n,
          assignTester (UnaryExpression (Cfg p v) n) (TesterV (snd (tester_succeeds t))))"
  by (simp add: UnaryExpression_def split: prod.splits)

text \<open>
  C4. The claim is that a leaf built from a \<open>{path, value}\<close> descriptor returns false,
  without raising, while no tester has been assigned. In the code \<open>_expression\<close> is
  \<open>null\<close> for such a leaf, and \<open>succeeds\<close> begins by reading \<open>this._expression.succeeds\<close>:
  for every path, value and negation flag the call throws a TypeError. The leaf that
  \<open>fromString\<close> returns for \<open>a:{1}\<close> is one such.
\<close>

theorem unresolved_leaf_succeeds_throws:
  "succeeds (UnaryExpression (Cfg p v) n) = Inl TypeError
   \<and> fromString 1 ''a:{1}'' = Some (Inr (UnaryExpression (Cfg ''a'' ''1'') False))"
proof
  show "succeeds (UnaryExpression (Cfg p v) n) = Inl TypeError"
    by (simp add: UnaryExpression_def)
  show "fromString 1 ''a:{1}'' = Some (Inr (UnaryExpression (Cfg ''a'' ''1'') False))"
    by code_simp
qed

text \<open>
  The throw is within reach of a running manager: for the conditions \<open>a:{1} and b:{2}\<close>,
  when the test of the first leaf is loaded and publishes a change before the test of
  the second leaf has arrived, \<open>test\<close> evaluates the second, unresolved leaf.
\<close>

lemma change_before_all_tests_loaded_throws:
  "(case ConditionsManager 5 (Str ''a:{1} and b:{2}'') of
      Some (Inr m) \<Rightarrow>
        (case testLoaded True 0 m of
           Some (Inr evs, m1) \<Rightarrow> evs = [] \<and> fst (testChanged [InA] True m1) = Inl TypeError
         | _ \<Rightarrow> False)
    | _ \<Rightarrow> False)"
  by code_simp

text \<open>
  C5. In the Ready state every leaf of the expression holds a tester. A call of \<open>test\<close>
  then does not throw; it evaluates the tree to its verdict, stores the verdict, and
  publishes exactly one \<open>change\<close> event when the verdict differs from the stored one and no
  event when it does not.
\<close>

theorem test_publishes_change_iff_verdict_differs:
  assumes "resolved (cm_expression m)"
  shows "\<exists>e. succeeds (cm_expression m) = Inr (verdict (cm_expression m), e)
             \<and> test m = Inr (m\<lparr>cm_expression := e, cm_suitable := verdict (cm_expression m)\<rparr>,
                             if verdict (cm_expression m) \<noteq> cm_suitable m then [CmChange] else [])"
proof -
  from succeeds_resolved [OF assms] obtain e where
    e: "succeeds (cm_expression m) = Inr (verdict (cm_expression m), e)" by blast
  have "test m = Inr (m\<lparr>cm_expression := e, cm_suitable := verdict (cm_expression m)\<rparr>,
                      if verdict (cm_expression m) \<noteq> cm_suitable m then [CmChange] else [])"
    using e by (auto simp: test_def)
  with e show ?thesis by blast
qed

text \<open>A witness of C5: the stored verdict is true and the second tester has turned.\<close>

theorem test_publishes_change_witness:
  "resolved (Binary (Unary (TesterV \<lparr>t_expected = Some ''1'', t_result = True, t_changed = False, t_assert = True\<rparr>)
                            (Cfg ''a'' ''1'') False) ''and''
                    (Unary (TesterV \<lparr>t_expected = Some ''2'', t_result = False, t_changed = True, t_assert = True\<rparr>)
                            (Cfg ''b'' ''2'') True))
   \<and> test \<lparr>cm_suitable = True, cm_count = Some 0,
            cm_expression =
              Binary (Unary (TesterV \<lparr>t_expected = Some ''1'', t_result = True, t_changed = False, t_assert = True\<rparr>)
                            (Cfg ''a'' ''1'') False) ''and''
                     (Unary (TesterV \<lparr>t_expected = Some ''2'', t_result = False, t_changed = True, t_assert = True\<rparr>)
                            (Cfg ''b'' ''2'') True),
            cm_requests = []\<rparr>
     = Inr (\<lparr>cm_suitable = False, cm_count = Some 0,
             cm_expression =
               Binary (Unary (TesterV \<lparr>t_expected = Some ''1'', t_result = True, t_changed = False, t_assert = True\<rparr>)
                             (Cfg ''a'' ''1'') False) ''and''
                      (Unary (TesterV \<lparr>t_expected = Some ''2'', t_result = True, t_changed = False, t_assert = True\<rparr>)
                             (Cfg ''b'' ''2'') True),
             cm_requests = []\<rparr>, [CmChange])"
  using test_publishes_change_iff_verdict_differs
    [of "\<lparr>cm_suitable = True, cm_count = Some 0,
            cm_expression =
              Binary (Unary (TesterV \<lparr>t_expected = Some ''1'', t_result = True, t_changed = False, t_assert = True\<rparr>)
                            (Cfg ''a'' ''1'') False) ''and''
                     (Unary (TesterV \<lparr>t_expected = Some ''2'', t_result = False, t_changed = True, t_assert = True\<rparr>)
                            (Cfg ''b'' ''2'') True),
            cm_requests = []\<rparr>"]
  by (simp add: tester_succeeds_def)

text \<open>
  The manager for \<open>a:{1} and not b:{2}\<close>, with the test of \<open>a\<close> asserting true and the
  test of \<open>b\<close> asserting false: once both tests are loaded every leaf is resolved and the
  manager publishes \<open>ready\<close> with the verdict true; when the test of \<open>b\<close> turns true, the
  verdict is false and one \<open>change\<close> is published.
\<close>

lemma ready_then_one_change:
  "(case ConditionsManager 5 (Str ''a:{1} and not b:{2}'') of
      Some (Inr m) \<Rightarrow>
        (case testLoaded True 0 m of
           Some (Inr evs1, m1) \<Rightarrow>
             (case testLoaded False 0 m1 of
                Some (Inr evs2, m2) \<Rightarrow>
                  evs1 = [] \<and> evs2 = [CmChange, CmReady True]
                  \<and> resolved (cm_expression m2) \<and> getSuitability m2
                  \<and> (case testChanged [InB] True m2 of
                        (r, m3) \<Rightarrow> r = Inr [CmChange] \<and> \<not> getSuitability m3)
              | _ \<Rightarrow> False)
         | _ \<Rightarrow> False)
    | _ \<Rightarrow> False)"
  by code_simp

text \<open>The count of \<open>:{\<close> is positive exactly when the string contains the two characters.\<close>

lemma count_matches_pos_occurs:
  "0 < count_matches s \<Longrightarrow> \<exists>u v. s = u @ '':{'' @ v"
proof (induction s rule: count_matches.induct)
  case (1 a b cs)
  show ?case
  proof (cases "a = CHR '':'' \<and> b = CHR ''{''")
    case True
    then have "a # b # cs = [] @ '':{'' @ cs" by simp
    then show ?thesis by blast
  next
    case False
    with 1 obtain u v where "b # cs = u @ '':{'' @ v" by auto
    then have "a # b # cs = (a # u) @ '':{'' @ v" by simp
    then show ?thesis by blast
  qed
qed simp_all

lemma occurs_count_matches_pos: "0 < count_matches (u @ '':{'' @ v)"
proof (induction u)
  case Nil
  show ?case by simp
next
  case (Cons x u)
  obtain b cs where bc: "u @ '':{'' @ v = b # cs" by (cases u) auto
  show ?case
  proof (cases "x = CHR '':'' \<and> b = CHR ''{''")
    case True
    with bc show ?thesis by simp
  next
    case False
    with Cons bc show ?thesis by auto
  qed
qed

text \<open>
  C10. For every condition string that does not contain the two characters \<open>:{\<close>, the
  empty string included, \<open>getExpressionsCount\<close> throws a TypeError, and so the constructor
  of \<open>ConditionsManager\<close> called with that string throws: no manager with zero pending
  leaves comes out. The constructor fails before the parser runs, whatever the fuel.
\<close>

theorem getExpressionsCount_throws_without_leaf:
  assumes "\<not> (\<exists>u v. s = u @ '':{'' @ v)"
  shows "getExpressionsCount s = Inl TypeError
         \<and> ConditionsManager fuel (Str s) = Some (Inl TypeError)"
proof -
  from assms count_matches_pos_occurs [of s] have "count_matches s = 0" by auto
  then show ?thesis by (simp add: getExpressionsCount_def ConditionsManager_def)
qed

text \<open>A witness of C10, at the string \<open>a and b\<close> and at the empty string.\<close>

theorem getExpressionsCount_throws_witness:
  "\<not> (\<exists>u v. ''a and b'' = u @ '':{'' @ v)
   \<and> getExpressionsCount ''a and b'' = Inl TypeError
   \<and> ConditionsManager 0 (Str ''a and b'') = Some (Inl TypeError)
   \<and> getExpressionsCount '''' = Inl TypeError
   \<and> ConditionsManager 0 (Str '''') = Some (Inl TypeError)"
proof -
  have a: "\<not> (\<exists>u v. ''a and b'' = u @ '':{'' @ v)"
  proof
    assume "\<exists>u v. ''a and b'' = u @ '':{'' @ v"
    then obtain u v where "''a and b'' = u @ '':{'' @ v" by blast
    then have "count_matches ''a and b'' = count_matches (u @ '':{'' @ v)"
      by (rule arg_cong)
    moreover have "count_matches ''a and b'' = 0" by simp
    ultimately show False using occurs_count_matches_pos [of u v] by linarith
  qed
  have b: "\<not> (\<exists>u v. '''' = u @ '':{'' @ v)" by simp
  show ?thesis
    using a getExpressionsCount_throws_without_leaf [OF a, of 0]
      getExpressionsCount_throws_without_leaf [OF b, of 0] by simp
qed

text \<open>
  C7. The claim is that for every well-formed condition string the serialised parse
  result parses to a tree that evaluates as the first tree does. The string
  \<open>not (not a:{1})\<close> parses to a negation of a negated leaf, which serialises to
  \<open>not not a:{1}\<close>; at index 0 the parser skips the space behind the operator it has just
  read, so the second \<open>not\<close> is not seen and the string parses to the negated leaf alone.
  With the test of the leaf asserting true the first tree evaluates to true and the second
  to false.
\<close>

theorem roundtrip_double_negation_differs:
  "fromString 4 ''not (not a:{1})'' = Some (Inr (Unary (Unary Null (Cfg ''a'' ''1'') True) Null True))
   \<and> toString (Unary (Unary Null (Cfg ''a'' ''1'') True) Null True) = Inr ''not not a:{1}''
   \<and> fromString 4 ''not not a:{1}'' = Some (Inr (Unary Null (Cfg ''a'' ''1'') True))
   \<and> evaluate (\<lambda>c. True) (Unary (Unary Null (Cfg ''a'' ''1'') True) Null True) = Inr True
   \<and> evaluate (\<lambda>c. True) (Unary Null (Cfg ''a'' ''1'') True) = Inr False"
proof (intro conjI)
  show "fromString 4 ''not (not a:{1})'' = Some (Inr (Unary (Unary Null (Cfg ''a'' ''1'') True) Null True))"
    by code_simp
  show "toString (Unary (Unary Null (Cfg ''a'' ''1'') True) Null True) = Inr ''not not a:{1}''"
    by simp
  show "fromString 4 ''not not a:{1}'' = Some (Inr (Unary Null (Cfg ''a'' ''1'') True))"
    by code_simp
  show "evaluate (\<lambda>c. True) (Unary (Unary Null (Cfg ''a'' ''1'') True) Null True) = Inr True"
    by (simp add: evaluate_def bind_leaves_def Tester_def tester_succeeds_def)
  show "evaluate (\<lambda>c. True) (Unary Null (Cfg ''a'' ''1'') True) = Inr False"
    by (simp add: evaluate_def bind_leaves_def Tester_def tester_succeeds_def)
qed

text \<open>
  Behind an operator in the middle of the string the same two words are read as a double
  negation, and a string without this pattern comes back from parsing its serialised
  tree as the same tree.
\<close>

lemma double_negation_after_operator_is_parsed:
  "fromString 5 ''a:{1} and not not b:{2}'' =
     Some (Inr (Binary (Unary Null (Cfg ''a'' ''1'') False) ''and''
                       (Unary (Unary Null (Cfg ''b'' ''2'') True) Null True)))"
  by code_simp

lemma roundtrip_example:
  "(case fromString 6 ''a:{1} and (b:{2} or not (c:{3} and d:{x y}))'' of
      Some (Inr v) \<Rightarrow>
        toString v = Inr ''(a:{1} and (b:{2} or not (c:{3} and d:{x y})))''
        \<and> fromString 6 ''(a:{1} and (b:{2} or not (c:{3} and d:{x y})))'' = Some (Inr v)
    | _ \<Rightarrow> False)"
  by code_simp

section \<open>Properties of mergeObjects\<close>

lemma mergeObjects_example:
  "mergeObjects
     (JObj [(''a'', JNum 1), (''b'', JObj [(''x'', JNum 1), (''y'', JNum 2)]),
            (''c'', JArr [Some (JNum 1), Some (JNum 2)])])
     (JObj [(''a'', JNum 2), (''b'', JObj [(''y'', JNum 3)]),
            (''c'', JArr [Some (JNum 2), Some (JNum 3)])])
   = Inr (JObj [(''a'', JNum 2), (''b'', JObj [(''x'', JNum 1), (''y'', JNum 3)]),
                (''c'', JArr [Some (JNum 1), Some (JNum 2), Some (JNum 3)])])"
  by code_simp

text \<open>
  C9. The claim is that for all objects of default options and declaration options
  \<open>mergeObjects\<close> returns their deep merge. With the defaults \<open>{items: []}\<close> and the
  declaration \<open>{items: [{size: {w: 1}}]}\<close> the call throws a TypeError instead: the entry
  of the declared array is merged with \<open>target[0]\<close>, which is \<open>undefined\<close>, and for the key
  \<open>size\<close>, whose value is an object, the code reads \<open>target[key]\<close> off that \<open>undefined\<close>.
\<close>

theorem mergeObjects_throws_on_nested_object_in_new_entry:
  "mergeObjects (JObj [(''items'', JArr [])])
                (JObj [(''items'', JArr [Some (JObj [(''size'', JObj [(''w'', JNum 1)])])])])
     = Inl TypeError"
  by code_simp

text \<open>
  The merge is the one \<open>_onLoad\<close> makes of the registered defaults and the options of
  the declaration: with these two objects the load of an available controller throws.
\<close>

lemma onLoad_throws_on_nested_object_in_new_entry:
  "fst (onLoad [(''mod'', JObj [(''items'', JArr [])])]
          ((unconditioned_controller ''mod'' None)
             \<lparr>mc_Module := Some plain_module,
              mc_options := Inr (JObj [(''items'',
                                  JArr [Some (JObj [(''size'', JObj [(''w'', JNum 1)])])])])\<rparr>))
   = Inl TypeError"
  by code_simp

section \<open>Properties of the module controller\<close>




text \<open>
  C3, as the code has it. \<open>execute\<close> returns status 404 and a null response when there
  is no instance. With an instance it throws an Error when the value read at the property
  \<open>method\<close> is absent or falsy, throws a TypeError when the value is truthy and not a
  function, and otherwise calls the function with the parameters and returns status 200
  and the function's result, or throws what the function throws. \<open>execute\<close> of the node
  is \<open>execute\<close> of the active controller, and status 404 with a null response when no
  controller is active.
\<close>

theorem execute_cases:
  "(mc_moduleInstance m = None \<longrightarrow> execute m method params = Inr (404, JNull))
   \<and> (\<forall>inst. mc_moduleInstance m = Some inst \<longrightarrow>
        (case map_of (i_props inst) method of None \<Rightarrow> True | Some F \<Rightarrow> \<not> prop_truthy F) \<longrightarrow>
          execute m method params = Inl Error)
   \<and> (\<forall>inst f. mc_moduleInstance m = Some inst \<longrightarrow>
        map_of (i_props inst) method = Some (Method f) \<longrightarrow>
          execute m method params =
            (case f params of Inl err \<Rightarrow> Inl err | Inr r \<Rightarrow> Inr (200, r)))
   \<and> (\<forall>inst v. mc_moduleInstance m = Some inst \<longrightarrow>
        map_of (i_props inst) method = Some (Value v) \<longrightarrow> truthy v \<longrightarrow>
          execute m method params = Inl TypeError)
   \<and> (\<forall>a. n_activeModuleController s = Some a \<longrightarrow>
          node_execute s method params = execute (ctrl s a) method params)
   \<and> (n_activeModuleController s = None \<longrightarrow> node_execute s method params = Inr (404, JNull))"
  by (auto simp: execute_def node_execute_def split: option.splits property.splits)

text \<open>
  A witness of C3: an instance with a method \<open>ping\<close> that returns 42, executed on the
  controller and through a node whose active controller it is; a missing method; and a
  node without an active controller.
\<close>

theorem execute_cases_witness:
  "execute (unconditioned_controller ''mod''
              (Some \<lparr>i_props = [(''ping'', Method (\<lambda>ps. Inr (JNum 42)))], i_propagates = True\<rparr>))
           ''ping'' [] = Inr (200, JNum 42)
   \<and> execute (unconditioned_controller ''mod''
              (Some \<lparr>i_props = [(''ping'', Method (\<lambda>ps. Inr (JNum 42)))], i_propagates = True\<rparr>))
           ''pong'' [] = Inl Error
   \<and> execute (unconditioned_controller ''mod'' None) ''ping'' [] = Inr (404, JNull)
   \<and> node_execute (Node []) ''ping'' [] = Inr (404, JNull)"
proof -
  let ?inst = "\<lparr>i_props = [(''ping'', Method (\<lambda>ps. Inr (JNum 42)))], i_propagates = True\<rparr>"
  let ?m = "unconditioned_controller ''mod'' (Some ?inst)"
  have a: "mc_moduleInstance ?m = Some ?inst" by (simp add: unconditioned_controller_def)
  have b: "mc_moduleInstance (unconditioned_controller ''mod'' None) = None"
    by (simp add: unconditioned_controller_def)
  have c: "n_activeModuleController (Node []) = None" by (simp add: Node_def)
  from execute_cases [of ?m "''ping''" "[]" "Node []"] a c
  have 1: "execute ?m ''ping'' [] = Inr (200, JNum 42)"
    and 4: "node_execute (Node []) ''ping'' [] = Inr (404, JNull)" by simp_all
  from execute_cases [of ?m "''pong''" "[]" "Node []"] a
  have 2: "execute ?m ''pong'' [] = Inl Error" by simp
  from execute_cases [of "unconditioned_controller ''mod'' None" "''ping''" "[]" "Node []"] b
  have 3: "execute (unconditioned_controller ''mod'' None) ''ping'' [] = Inr (404, JNull)"
    by simp
  from 1 2 3 4 show ?thesis by simp
qed

text \<open>
  C3 as stated says that \<open>execute\<close> returns status 200 whenever the instance exposes a
  property of the given name. An instance made by a subclass of \<open>ModuleBase\<close> has the
  property \<open>_options\<close>, an object; \<open>execute('_options',[])\<close> finds it, and the call of its
  \<open>apply\<close> throws a TypeError.
\<close>

theorem execute_data_property_counterexample:
  "map_of (i_props \<lparr>i_props = [(''_options'', Value (JObj []))], i_propagates = True\<rparr>) ''_options''
     = Some (Value (JObj []))
   \<and> execute (unconditioned_controller ''mod''
                (Some \<lparr>i_props = [(''_options'', Value (JObj []))], i_propagates = True\<rparr>))
             ''_options'' [] = Inl TypeError"
  by (simp add: execute_def unconditioned_controller_def)

text \<open>
  A conditions manager made without a string of conditions is suitable, and stays so:
  it has no expression and no requests, so \<open>test\<close> throws before it writes, and no answer
  of the loader and no change of a test finds a leaf.
\<close>

lemma unconditioned_manager_stays_suitable:
  assumes "\<not> is_string conditions"
  shows "\<exists>m. ConditionsManager fuel conditions = Some (Inr m) \<and> getSuitability m
             \<and> test m = Inl TypeError \<and> onReady m = Inl TypeError
             \<and> testLoaded assert k m = None
             \<and> testChanged pos assert m = (Inl TypeError, m)"
proof -
  let ?m = "\<lparr>cm_suitable = True, cm_count = None, cm_expression = Undefined, cm_requests = []\<rparr>"
  have pos: "mark_changed pos assert Undefined = Undefined" by (cases pos) simp_all
  have "ConditionsManager fuel conditions = Some (Inr ?m)"
    using assms by (simp add: ConditionsManager_def)
  moreover have "getSuitability ?m" by (simp add: getSuitability_def)
  moreover have "test ?m = Inl TypeError" by (simp add: test_def)
  moreover have "onReady ?m = Inl TypeError" by (simp add: onReady_def test_def)
  moreover have "testLoaded assert k ?m = None" by (simp add: testLoaded_def)
  moreover have "testChanged pos assert ?m = (Inl TypeError, ?m)"
    by (simp add: testChanged_def onTestResultsChanged_def test_def pos)
  ultimately show ?thesis by blast
qed

text \<open>
  C6. The claim is that \<open>isConditioned\<close> is true exactly when an expression was supplied.
  The node builds the controller of an element without a \<open>data-conditions\<close> attribute with
  \<open>conditions: null\<close>, the value \<open>getAttribute\<close> returns. For that controller the
  conditions manager is the unconditioned one (suitable, no expression), as for every
  value that is not a string, and yet \<open>isConditioned\<close> is true, because it tests for
  \<open>undefined\<close> only.
\<close>

theorem isConditioned_true_for_null_conditions:
  "map_option (map_sum id (\<lambda>m. (isConditioned m, mc_conditionsManager m)))
              (ModuleController fuel ''mod'' Null options)
   = Some (Inr (True, \<lparr>cm_suitable = True, cm_count = None, cm_expression = Undefined,
                       cm_requests = []\<rparr>))"
  by (simp add: ModuleController_def ConditionsManager_def isConditioned_def)

section \<open>Properties of the node\<close>

lemma same_but_available_refl: "same_but_available s s"
  by (simp add: same_but_available_def)

lemma same_but_available_trans:
  "same_but_available s s1 \<Longrightarrow> same_but_available s1 s2 \<Longrightarrow> same_but_available s s2"
  by (simp add: same_but_available_def)

lemma same_but_available_isAvailable:
  assumes "i < length (n_moduleControllers s)"
  shows "same_but_available s (set_ctrl i ((ctrl s i)\<lparr>mc_available := available_at s i\<rparr>) s)"
proof -
  let ?ms = "n_moduleControllers s"
  have "map (\<lambda>m. m\<lparr>mc_available := False\<rparr>)
          (?ms[i := (?ms ! i)\<lparr>mc_available := getSuitability (mc_conditionsManager (?ms ! i))\<rparr>])
        = map (\<lambda>m. m\<lparr>mc_available := False\<rparr>) ?ms"
    using assms by (simp add: map_update list_update_same_conv)
  then show ?thesis
    by (simp add: same_but_available_def set_ctrl_def available_at_def ctrl_def)
qed

lemma same_but_available_facts:
  assumes "same_but_available s s'"
  shows "length (n_moduleControllers s') = length (n_moduleControllers s)"
    and "j < length (n_moduleControllers s) \<Longrightarrow> available_at s' j = available_at s j"
    and "j < length (n_moduleControllers s) \<Longrightarrow> isConditioned (ctrl s' j) = isConditioned (ctrl s j)"
    and "j < length (n_moduleControllers s) \<Longrightarrow> isActive (ctrl s' j) = isActive (ctrl s j)"
proof -
  let ?f = "\<lambda>m. m\<lparr>mc_available := False\<rparr>"
  from assms have eq: "map ?f (n_moduleControllers s') = map ?f (n_moduleControllers s)"
    by (simp add: same_but_available_def)
  then show len: "length (n_moduleControllers s') = length (n_moduleControllers s)"
    by (rule map_eq_imp_length_eq)
  {
    assume j: "j < length (n_moduleControllers s)"
    from eq have "map ?f (n_moduleControllers s') ! j = map ?f (n_moduleControllers s) ! j"
      by simp
    with j len have e: "?f (ctrl s' j) = ?f (ctrl s j)" by (simp add: ctrl_def)
    have a: "mc_conditionsManager (?f (ctrl s' j)) = mc_conditionsManager (?f (ctrl s j))"
      and b: "mc_conditions (?f (ctrl s' j)) = mc_conditions (?f (ctrl s j))"
      and c: "mc_moduleInstance (?f (ctrl s' j)) = mc_moduleInstance (?f (ctrl s j))"
      using e by simp_all
    from a show "available_at s' j = available_at s j" by (simp add: available_at_def)
    from b show "isConditioned (ctrl s' j) = isConditioned (ctrl s j)"
      by (simp add: isConditioned_def)
    from c show "isActive (ctrl s' j) = isActive (ctrl s j)" by (simp add: isActive_def)
  }
qed

text \<open>
  The loop of \<open>_onModuleAvailable\<close> writes \<open>_available\<close> fields only, and it returns early
  exactly when some controller other than \<open>k\<close> is available and conditioned.
\<close>

lemma blocked_from_props:
  "blocked_from k i s = (b, s') \<Longrightarrow>
     same_but_available s s'
     \<and> (b \<longleftrightarrow> (\<exists>j. i \<le> j \<and> j < length (n_moduleControllers s) \<and> j \<noteq> k
                  \<and> available_at s j \<and> isConditioned (ctrl s j)))"
proof (induction k i s arbitrary: b s' rule: blocked_from.induct)
  case (1 k i s)
  show ?case
  proof (cases "length (n_moduleControllers s) \<le> i")
    case True
    then have "blocked_from k i s = (False, s)" by (subst blocked_from.simps) simp
    with "1.prems" True show ?thesis by (auto simp: same_but_available_refl)
  next
    case inrange: False
    show ?thesis
    proof (cases "i = k")
      case True
      with inrange have "blocked_from k i s = blocked_from k (Suc i) s"
        by (subst blocked_from.simps) simp
      with "1.prems" have "blocked_from k (Suc i) s = (b, s')" by simp
      from "1.IH"(1) [OF inrange True this]
      have ih: "same_but_available s s'"
        "b \<longleftrightarrow> (\<exists>j. Suc i \<le> j \<and> j < length (n_moduleControllers s) \<and> j \<noteq> k
                  \<and> available_at s j \<and> isConditioned (ctrl s j))" by auto
      have "(\<exists>j. Suc i \<le> j \<and> j < length (n_moduleControllers s) \<and> j \<noteq> k
                  \<and> available_at s j \<and> isConditioned (ctrl s j))
            \<longleftrightarrow> (\<exists>j. i \<le> j \<and> j < length (n_moduleControllers s) \<and> j \<noteq> k
                  \<and> available_at s j \<and> isConditioned (ctrl s j))"
        using True by (metis Suc_leD Suc_le_eq le_neq_implies_less)
      with ih show ?thesis by simp
    next
      case neq: False
      let ?m = "(ctrl s i)\<lparr>mc_available := available_at s i\<rparr>"
      let ?s1 = "set_ctrl i ?m s"
      have pair: "isAvailable (ctrl s i) = (available_at s i, ?m)"
        by (simp add: isAvailable_def available_at_def)
      have sba: "same_but_available s ?s1"
        using inrange by (simp add: same_but_available_isAvailable)
      have cond: "isConditioned ?m = isConditioned (ctrl s i)"
        by (simp add: isConditioned_def)
      have unfold: "blocked_from k i s =
          (if available_at s i \<and> isConditioned (ctrl s i) then (True, ?s1)
           else blocked_from k (Suc i) ?s1)"
        using inrange neq cond by (subst blocked_from.simps) (simp add: pair)
      show ?thesis
      proof (cases "available_at s i \<and> isConditioned (ctrl s i)")
        case True
        with unfold "1.prems" have "b" "s' = ?s1" by simp_all
        moreover have "\<exists>j. i \<le> j \<and> j < length (n_moduleControllers s) \<and> j \<noteq> k
                  \<and> available_at s j \<and> isConditioned (ctrl s j)"
          using True inrange neq by (intro exI [of _ i]) simp
        ultimately show ?thesis using sba by simp
      next
        case False
        with unfold "1.prems" have rec: "blocked_from k (Suc i) ?s1 = (b, s')" by simp
        have nb: "\<not> (available_at s i \<and> isConditioned ?m)" using False cond by simp
        from "1.IH"(2) [OF inrange neq pair [symmetric] nb rec]
        have ih: "same_but_available ?s1 s'"
          "b \<longleftrightarrow> (\<exists>j. Suc i \<le> j \<and> j < length (n_moduleControllers ?s1) \<and> j \<noteq> k
                  \<and> available_at ?s1 j \<and> isConditioned (ctrl ?s1 j))"
          by auto
        from sba ih(1) have t: "same_but_available s s'" by (rule same_but_available_trans)
        have b1: "b \<longleftrightarrow> (\<exists>j. Suc i \<le> j \<and> j < length (n_moduleControllers s) \<and> j \<noteq> k
                  \<and> available_at s j \<and> isConditioned (ctrl s j))"
          using ih(2) same_but_available_facts [OF sba] by auto
        have "(\<exists>j. Suc i \<le> j \<and> j < length (n_moduleControllers s) \<and> j \<noteq> k
                  \<and> available_at s j \<and> isConditioned (ctrl s j))
            \<longleftrightarrow> (\<exists>j. i \<le> j \<and> j < length (n_moduleControllers s) \<and> j \<noteq> k
                  \<and> available_at s j \<and> isConditioned (ctrl s j))"
          using False by (metis Suc_leD Suc_le_eq le_neq_implies_less)
        with b1 t show ?thesis by simp
      qed
    qed
  qed
qed

text \<open>The first-fit scan returns the first available controller, if there is one.\<close>

lemma getSuitable_from_props:
  "getSuitable_from i s = (r, s') \<Longrightarrow>
     same_but_available s s'
     \<and> (case r of
           None \<Rightarrow> \<not> (\<exists>j. i \<le> j \<and> j < length (n_moduleControllers s) \<and> available_at s j)
         | Some a \<Rightarrow> i \<le> a \<and> a < length (n_moduleControllers s) \<and> available_at s a
                     \<and> \<not> (\<exists>j. i \<le> j \<and> j < a \<and> available_at s j))"
proof (induction i s arbitrary: r s' rule: getSuitable_from.induct)
  case (1 i s)
  show ?case
  proof (cases "length (n_moduleControllers s) \<le> i")
    case True
    then have "getSuitable_from i s = (None, s)" by (subst getSuitable_from.simps) simp
    with "1.prems" True show ?thesis by (auto simp: same_but_available_refl)
  next
    case inrange: False
    let ?m = "(ctrl s i)\<lparr>mc_available := available_at s i\<rparr>"
    let ?s1 = "set_ctrl i ?m s"
    have pair: "isAvailable (ctrl s i) = (available_at s i, ?m)"
      by (simp add: isAvailable_def available_at_def)
    have sba: "same_but_available s ?s1"
      using inrange by (simp add: same_but_available_isAvailable)
    have unfold: "getSuitable_from i s =
        (if available_at s i then (Some i, ?s1) else getSuitable_from (Suc i) ?s1)"
      using inrange by (subst getSuitable_from.simps) (simp add: pair)
    show ?thesis
    proof (cases "available_at s i")
      case True
      with unfold "1.prems" have "r = Some i" "s' = ?s1" by simp_all
      with sba True inrange show ?thesis by auto
    next
      case False
      with unfold "1.prems" have rec: "getSuitable_from (Suc i) ?s1 = (r, s')" by simp
      from "1.IH" [OF inrange pair [symmetric] False rec]
      have ih: "same_but_available ?s1 s'"
        "case r of
           None \<Rightarrow> \<not> (\<exists>j. Suc i \<le> j \<and> j < length (n_moduleControllers ?s1) \<and> available_at ?s1 j)
         | Some a \<Rightarrow> Suc i \<le> a \<and> a < length (n_moduleControllers ?s1) \<and> available_at ?s1 a
                     \<and> \<not> (\<exists>j. Suc i \<le> j \<and> j < a \<and> available_at ?s1 j)"
        by auto
      from sba ih(1) have t: "same_but_available s s'" by (rule same_but_available_trans)
      note f = same_but_available_facts(1,2) [OF sba]
      show ?thesis
      proof (cases r)
        case None
        with ih(2) f have "\<not> (\<exists>j. Suc i \<le> j \<and> j < length (n_moduleControllers s) \<and> available_at s j)"
          by auto
        with False have "\<not> (\<exists>j. i \<le> j \<and> j < length (n_moduleControllers s) \<and> available_at s j)"
          by (metis Suc_leI le_neq_implies_less)
        with None t show ?thesis by simp
      next
        case (Some a)
        with ih(2) f have a: "Suc i \<le> a" "a < length (n_moduleControllers s)" "available_at s a"
          and n: "\<not> (\<exists>j. Suc i \<le> j \<and> j < a \<and> available_at s j)"
          by auto
        from n a(2) f False have "\<not> (\<exists>j. i \<le> j \<and> j < a \<and> available_at s j)"
          by (metis Suc_leI le_neq_implies_less)
        with Some a t show ?thesis by simp
      qed
    qed
  qed
qed

text \<open>
  What holds of C2. When controller \<open>k\<close> reports \<open>available\<close> and some other
  controller, at any position of the list, is available and has \<open>isConditioned\<close> true,
  \<open>_onModuleAvailable\<close> returns with the active controller, the instances, the requests
  and the published events as they were, whatever the fuel. \<open>isConditioned\<close> is true of
  every controller whose \<open>_options.conditions\<close> is not \<open>undefined\<close>, \<open>null\<close> included.
  The scan of \<open>_getSuitableActiveModuleController\<close> returns the first available controller
  of the list.
\<close>

lemma onModuleAvailable_blocked:
  assumes "j < length (n_moduleControllers s)" and "j \<noteq> k"
    and "available_at s j" and "isConditioned (ctrl s j)"
  shows "\<exists>s'. onModuleAvailable fuel k s = Some (Returned, s') \<and> same_but_available s s'"
proof -
  obtain b s1 where bs: "blocked_from k 0 s = (b, s1)" by (cases "blocked_from k 0 s")
  from blocked_from_props [OF bs] assms
  have "same_but_available s s1" and "b" by auto
  with bs show ?thesis by (auto simp: onModuleAvailable_def)
qed

lemma scan_returns_first_available:
  "\<exists>r s'. getSuitableActiveModuleController s = (r, s') \<and> same_but_available s s'
         \<and> (case r of
               None \<Rightarrow> \<not> (\<exists>j. j < length (n_moduleControllers s) \<and> available_at s j)
             | Some a \<Rightarrow> a < length (n_moduleControllers s) \<and> available_at s a
                         \<and> \<not> (\<exists>j. j < a \<and> available_at s j))"
proof -
  obtain r s' where rs: "getSuitable_from 0 s = (r, s')" by (cases "getSuitable_from 0 s")
  from getSuitable_from_props [OF rs] rs show ?thesis
    by (cases r) (auto simp: getSuitableActiveModuleController_def)
qed

text \<open>
  With both declarations conditioned, A with \<open>x:{1}\<close> and B with \<open>y:{2}\<close>, and both tests
  asserting true, the scan elects A and B reporting \<open>available\<close> leaves A active: only the
  module of A is requested.
\<close>

lemma conditioned_first_binding_keeps_election:
  "(case init 20 5 [(''a'', Str ''x:{1}'', Inr JUndefined), (''b'', Str ''y:{2}'', Inr JUndefined)]
           (Node []) of
      None \<Rightarrow> False
    | Some (r, s) \<Rightarrow>
        (case run 20 [TestLoaded 0 0 True, TestLoaded 1 0 True] s of
           None \<Rightarrow> False
         | Some s' \<Rightarrow>
             available_at s' 0 \<and> available_at s' 1 \<and> n_requests s' = [0]
             \<and> n_published s' = [(0, EvReady), (0, EvAvailable), (1, EvReady), (1, EvAvailable)]
             \<and> n_activeModuleController s' = Some 0))"
  by code_simp

text \<open>
  C2. The claim has the concrete case of two available bindings A and B, A first: the
  scan elects A, and B reporting \<open>available\<close> leaves A active. The guard of
  \<open>_onModuleAvailable\<close> carries the comment that an earlier or conditioned module is
  ready and the reporting module therefore cannot be loaded, but it tests
  \<open>isAvailable() && isConditioned()\<close> only, not the position. Take A declared without
  conditions and B with the condition \<open>x:{1}\<close>. When the test of B is loaded and asserts
  true, all controllers are ready, the scan elects A and requests its module, and B,
  reporting \<open>available\<close> in the same \<open>_onReady\<close>, is made the active controller in A's
  place: both are available at the end, both modules have been requested, A's first, and
  B is active. When the test of B asserts false at first, A is elected and active; when
  the test then changes to true, B reports \<open>available\<close> and is made the active
  controller, A still being available.
\<close>

theorem unconditioned_first_binding_loses_election:
  "(case init 20 5 [(''a'', Undefined, Inr JUndefined), (''b'', Str ''x:{1}'', Inr JUndefined)]
           (Node []) of
      None \<Rightarrow> False
    | Some (r, s) \<Rightarrow>
        (case run 20 [TestLoaded 1 0 True] s of
           None \<Rightarrow> False
         | Some s' \<Rightarrow>
             available_at s' 0 \<and> available_at s' 1 \<and> n_requests s' = [0, 1]
             \<and> n_activeModuleController s' = Some 1))
   \<and> (case init 20 5 [(''a'', Undefined, Inr JUndefined), (''b'', Str ''x:{1}'', Inr JUndefined)]
           (Node []) of
      None \<Rightarrow> False
    | Some (r, s) \<Rightarrow>
        (case run 20 [TestLoaded 1 0 False] s of
           None \<Rightarrow> False
         | Some s1 \<Rightarrow>
             available_at s1 0 \<and> \<not> available_at s1 1 \<and> n_requests s1 = [0]
             \<and> n_activeModuleController s1 = Some 0
             \<and> (case run 20 [TestChanged 1 [] True] s1 of
                   None \<Rightarrow> False
                 | Some s2 \<Rightarrow>
                     available_at s2 0 \<and> available_at s2 1 \<and> n_requests s2 = [0, 1]
                     \<and> n_activeModuleController s2 = Some 1)))"
  by code_simp

text \<open>
  The same declarations with \<open>conditions: null\<close> for A, which is neither a string for
  the conditions manager nor \<open>undefined\<close> for \<open>isConditioned\<close>: A is as unconditioned as
  before, and now it keeps the place.
\<close>

lemma null_conditions_first_binding_keeps_election:
  "(case init 20 5 [(''a'', Null, Inr JUndefined), (''b'', Str ''x:{1}'', Inr JUndefined)]
           (Node []) of
      None \<Rightarrow> False
    | Some (r, s) \<Rightarrow>
        (case run 20 [TestLoaded 1 0 True] s of
           None \<Rightarrow> False
         | Some s' \<Rightarrow>
             available_at s' 0 \<and> available_at s' 1 \<and> n_requests s' = [0]
             \<and> n_activeModuleController s' = Some 0))"
  by code_simp

text \<open>
  C1. The claim is that at most one controller of a node holds a module instance after
  every event. Take a node with the declarations A, without conditions, and B, with the
  condition \<open>x:{1}\<close>. The test of B is loaded and asserts true: all controllers are
  ready, the scan elects A and requests its module; B reports \<open>available\<close>,
  \<open>_setActiveModuleController\<close> unloads A, which has no instance yet, and requests the
  module of B. Then the loader answers both requests. \<open>_onLoad\<close> of A asks \<open>isAvailable\<close>,
  which reads the verdict of the conditions and is true, and makes an instance, although
  A is not the active controller any more; \<open>_onLoad\<close> of B makes the second instance.
  Both controllers are active at the end.
\<close>

theorem two_controllers_active_after_late_module_answers:
  "(case init 20 5 [(''a'', Undefined, Inr JUndefined), (''b'', Str ''x:{1}'', Inr JUndefined)]
           (Node []) of
      None \<Rightarrow> False
    | Some (r, s) \<Rightarrow>
        (case run 20 [TestLoaded 1 0 True, ModuleLoaded 0 plain_module,
                      ModuleLoaded 1 plain_module] s of
           None \<Rightarrow> False
         | Some s' \<Rightarrow>
             active_controllers s' = [0, 1] \<and> n_activeModuleController s' = Some 1))"
  by code_simp

text \<open>
  The same happens when B is declared first and becomes available only after A, the
  fallback without conditions, was elected.
\<close>

lemma two_controllers_active_conditioned_first:
  "(case init 20 5 [(''b'', Str ''x:{1}'', Inr JUndefined), (''a'', Undefined, Inr JUndefined)]
           (Node []) of
      None \<Rightarrow> False
    | Some (r, s) \<Rightarrow>
        (case run 20 [TestLoaded 0 0 False, TestChanged 0 [] True,
                      ModuleLoaded 1 plain_module, ModuleLoaded 0 plain_module] s of
           None \<Rightarrow> False
         | Some s' \<Rightarrow>
             active_controllers s' = [0, 1] \<and> n_activeModuleController s' = Some 0))"
  by code_simp

text \<open>
  A declaration whose conditions are the empty string makes the constructor of its
  conditions manager throw, and \<open>init\<close> of the node with it.
\<close>

lemma init_throws_on_empty_conditions:
  "(case init 20 5 [(''a'', Str '''', Inr JUndefined)] (Node []) of
      None \<Rightarrow> False
    | Some (r, s) \<Rightarrow> r = Threw TypeError \<and> length (n_moduleControllers s) = 0)"
  by code_simp

end
